theory Spec2Isabelle
  imports Main
begin

section \<open>JavaScript values and objects\<close>

text \<open>
  The repository holds two revisions of the file of the handler \<open>wfsGetFeature\<close>. The
  one embedded first is the revision that reads \<open>srsName\<close> and removes \<open>$count\<close> from
  the parameters of the total-count query; the other one is embedded, where it differs,
  in its own section below.

  The handler works on untyped JavaScript values: feature rows are
  objects whose columns hold numbers, strings or null, and both response documents are
  object literals handed to a serialiser. A value is one of the cases below. A number
  with an integer value is \<open>JInt\<close>; any other number is \<open>JNum r\<close>, where the type
  \<open>'r\<close> of such numbers and their rendering by Number::toString are parameters of the
  model (floating point is not modelled). An object is the list of its own properties
  in insertion order; a well-formed object has no key twice. Property names are taken
  to be ordinary names: the special name \<open>__proto__\<close> and the reordering of keys that
  are array indices are outside the model, and every statement below is made through
  lookups, never through the position of a key.
\<close>

datatype 'r jsval =
    JUndefined
  | JNull
  | JInt int
  | JNum 'r
  | JStr string
  | JArr "'r jsval list"
  | JObj "(string \<times> 'r jsval) list"

type_synonym 'r obj = "(string \<times> 'r jsval) list"

definition keys :: "(string \<times> 'v) list \<Rightarrow> string list" where
  "keys ob = map fst ob"

definition wf_obj :: "(string \<times> 'v) list \<Rightarrow> bool" where
  "wf_obj ob = distinct (keys ob)"

text \<open>Reading a property: \<open>undefined\<close> when the object has no such key.\<close>

definition obj_get :: "'r obj \<Rightarrow> string \<Rightarrow> 'r jsval" where
  "obj_get ob k = (case map_of ob k of None \<Rightarrow> JUndefined | Some v \<Rightarrow> v)"

text \<open>Writing a property: an existing key keeps its place, a new key goes last.\<close>

fun obj_set :: "(string \<times> 'v) list \<Rightarrow> string \<Rightarrow> 'v \<Rightarrow> (string \<times> 'v) list" where
  "obj_set [] k v = [(k, v)]"
| "obj_set ((k', v') # ob) k v =
     (if k' = k then (k, v) # ob else (k', v') # obj_set ob k v)"

text \<open>The spread \<open>{ ...target, ...src }\<close>: every property of \<open>src\<close> is written in turn.\<close>

definition spread :: "(string \<times> 'v) list \<Rightarrow> (string \<times> 'v) list \<Rightarrow> (string \<times> 'v) list" where
  "spread target src = foldl (\<lambda>ob (k, v). obj_set ob k v) target src"

text \<open>The rest pattern \<open>const { $count, ...rest } = ob\<close>.\<close>

definition rest_without :: "string \<Rightarrow> (string \<times> 'v) list \<Rightarrow> (string \<times> 'v) list" where
  "rest_without k ob = filter (\<lambda>(k', v). k' \<noteq> k) ob"

subsection \<open>String conversion\<close>

definition digit_char :: "nat \<Rightarrow> char" where
  "digit_char d = ''0123456789'' ! d"

fun decimal :: "nat \<Rightarrow> string" where
  "decimal n = (if n < 10 then [digit_char n] else decimal (n div 10) @ [digit_char (n mod 10)])"

declare decimal.simps [simp del]

definition intToString :: "int \<Rightarrow> string" where
  "intToString i = (if i < 0 then ''-'' @ decimal (nat (- i)) else decimal (nat i))"

text \<open>\<open>Array.prototype.join\<close> on an array of strings.\<close>

fun join :: "string \<Rightarrow> string list \<Rightarrow> string" where
  "join sep [] = []"
| "join sep [x] = x"
| "join sep (x # y # ys) = x @ sep @ join sep (y # ys)"

text \<open>
  The conversion a template literal \<open>`${v}`\<close> applies. \<open>fmt\<close> renders the numbers that
  are not integers.
\<close>

fun toString :: "('r \<Rightarrow> string) \<Rightarrow> 'r jsval \<Rightarrow> string" where
  "toString fmt JUndefined = ''undefined''"
| "toString fmt JNull = ''null''"
| "toString fmt (JInt i) = intToString i"
| "toString fmt (JNum r) = fmt r"
| "toString fmt (JStr s) = s"
| "toString fmt (JArr xs) =
     join '','' (map (\<lambda>x. if x = JUndefined \<or> x = JNull then [] else toString fmt x) xs)"
| "toString fmt (JObj ps) = ''[object Object]''"

section \<open>The request and the data source\<close>

text \<open>
  \<open>parseWfsParams\<close> is not part of the handler's file; its result \<open>parsed\<close> is the
  handler's input. A field that may be \<open>null\<close> or \<open>undefined\<close> is an option.
\<close>

record 'r wfsParams =
  typeNames :: "string list"
  bbox :: "'r jsval list option"
  outputFormat :: string
  count :: "nat option"
  srsName :: "string option"

datatype error =
    Error string
  | TypeError
  | Rejected string

text \<open>
  The data source is an external collaborator: \<open>refresh\<close> and \<open>queryFeaturePackage\<close>
  are taken as they answer, and either may reject.
\<close>

record 'r dataSource =
  refresh :: "bool \<Rightarrow> error option"
  queryFeaturePackage :: "string \<Rightarrow> 'r obj \<Rightarrow> error + 'r obj list"

datatype 'r call = Refresh bool | Query string "'r obj"

record 'r response =
  contentType :: string
  status :: nat
  body :: "'r jsval"

section \<open>Query parameters and query text\<close>

definition paramSlot :: "nat \<Rightarrow> string" where
  "paramSlot i = ''$param'' @ decimal i"

definition bboxSlot :: "nat \<Rightarrow> string" where
  "bboxSlot i = ''$bbox'' @ decimal i"

text \<open>A loop \<open>ob[slot(i)] = vs[i]\<close> over the indices of an array.\<close>

definition bindAll :: "(nat \<Rightarrow> string) \<Rightarrow> 'v list \<Rightarrow> (string \<times> 'v) list \<Rightarrow> (string \<times> 'v) list" where
  "bindAll slot vs ob = foldl (\<lambda>ob (i, v). obj_set ob (slot i) v) ob (enumerate 0 vs)"

definition queryParams :: "'r wfsParams \<Rightarrow> 'r obj" where
  "queryParams p =
     (let q0 = bindAll paramSlot (map JStr (typeNames p)) [];
          q1 = (case bbox p of None \<Rightarrow> q0 | Some b \<Rightarrow> bindAll bboxSlot b q0);
          q2 = (case count p of None \<Rightarrow> q1 | Some c \<Rightarrow> obj_set q1 ''$count'' (JInt (int c)))
      in q2)"

definition featureSets :: "'r wfsParams \<Rightarrow> string" where
  "featureSets p = join '','' (map paramSlot [0..<length (typeNames p)])"

definition remainingQueryParams :: "'r obj \<Rightarrow> 'r obj" where
  "remainingQueryParams q = rest_without ''$count'' q"

definition nl :: string where
  "nl = [CHR 0x0A]"

definition bboxClause :: "'r wfsParams \<Rightarrow> string" where
  "bboxClause p =
     (if bbox p \<noteq> None then ''AND x > $bbox0 AND y > $bbox1 AND x < $bbox2 AND y < $bbox3''
      else [])"

definition fetchSql :: "'r wfsParams \<Rightarrow> string" where
  "fetchSql p = concat
     [nl, ''    SELECT *'',
      nl, ''    FROM all_features'',
      nl, ''    WHERE featureset IN ('', featureSets p, '')'',
      nl, ''    '', bboxClause p,
      nl, ''    '', (if count p \<noteq> None then ''LIMIT $count'' else []),
      nl, ''  '']"

definition countSql :: "'r wfsParams \<Rightarrow> string" where
  "countSql p = concat
     [nl, ''      SELECT COUNT(*) AS totalCount'',
      nl, ''      FROM all_features'',
      nl, ''      WHERE featureset IN ('', featureSets p, '')'',
      nl, ''      '', bboxClause p,
      nl, ''    '']"

text \<open>
  The two awaited queries. The result is the list of calls made on the data source and
  either the error that ended the handler or the pair \<open>(features, numberMatched)\<close>.
  \<open>totalCountResult[0]['totalCount']\<close> is a TypeError on an empty result.
\<close>

definition runQueries ::
  "'r dataSource \<Rightarrow> 'r wfsParams \<Rightarrow> 'r call list \<times> (error + 'r obj list \<times> 'r jsval)" where
  "runQueries ds p =
     (let q = queryParams p in
      case queryFeaturePackage ds (fetchSql p) q of
        Inl e \<Rightarrow> ([Query (fetchSql p) q], Inl e)
      | Inr features \<Rightarrow>
          (case count p of
             None \<Rightarrow> ([Query (fetchSql p) q], Inr (features, JInt (int (length features))))
           | Some c \<Rightarrow>
               (let r = remainingQueryParams q in
                case queryFeaturePackage ds (countSql p) r of
                  Inl e \<Rightarrow> ([Query (fetchSql p) q, Query (countSql p) r], Inl e)
                | Inr [] \<Rightarrow> ([Query (fetchSql p) q, Query (countSql p) r], Inl TypeError)
                | Inr (row # rows) \<Rightarrow>
                    ([Query (fetchSql p) q, Query (countSql p) r],
                     Inr (features, obj_get row ''totalCount'')))))"

section \<open>Decoration and serialisation\<close>

definition mapFeature :: "('r \<Rightarrow> string) \<Rightarrow> string \<Rightarrow> 'r obj \<Rightarrow> 'r obj" where
  "mapFeature fmt serverUrl feature =
     spread
       [(''viewerUrl'',
         JStr (serverUrl @ ''/viewer#camera='' @ toString fmt (obj_get feature ''latitude'')
               @ '','' @ toString fmt (obj_get feature ''longitude'') @ '',18.00z''))]
       feature"

subsection \<open>GeoJSON\<close>

definition properties :: "('r \<Rightarrow> string) \<Rightarrow> 'r obj \<Rightarrow> 'r obj" where
  "properties fmt feature =
     foldl (\<lambda>props key.
              if key = ''geom'' then props
              else obj_set props key (JStr (toString fmt (obj_get feature key))))
       [(''GmlID'', JStr (''Point.'' @ toString fmt (obj_get feature ''id'')))]
       (keys feature)"

definition coordinates :: "string option \<Rightarrow> 'r obj \<Rightarrow> 'r jsval list" where
  "coordinates srs feature =
     (if srs = Some ''EPSG:4326'' then [obj_get feature ''longitude'', obj_get feature ''latitude'']
      else [obj_get feature ''x'', obj_get feature ''y''])"

definition geojsonFeature :: "('r \<Rightarrow> string) \<Rightarrow> string option \<Rightarrow> 'r obj \<Rightarrow> 'r jsval" where
  "geojsonFeature fmt srs feature =
     JObj [(''type'', JStr ''Feature''),
           (''geometry'', JObj [(''type'', JStr ''Point''),
                                (''coordinates'', JArr (coordinates srs feature))]),
           (''properties'', JObj (properties fmt feature))]"

definition geojsonCollection :: "('r \<Rightarrow> string) \<Rightarrow> string option \<Rightarrow> 'r obj list \<Rightarrow> 'r jsval" where
  "geojsonCollection fmt srs features =
     JObj [(''type'', JStr ''FeatureCollection''),
           (''features'', JArr (map (geojsonFeature fmt srs) features))]"

subsection \<open>GML\<close>

definition gmlPoint :: "('r \<Rightarrow> string) \<Rightarrow> string option \<Rightarrow> 'r obj \<Rightarrow> error + 'r jsval" where
  "gmlPoint fmt srs feature =
     (if srs = Some ''EPSG:3857'' then
        Inr (JObj [(''gml:Point'', JObj
          [(''@srsName'', JStr ''urn:ogc:def:crs:EPSG::3857''),
           (''@srsDimension'', JInt 2),
           (''@gml:id'', JStr (''GmlPoint.'' @ toString fmt (obj_get feature ''id''))),
           (''gml:pos'', JStr (toString fmt (obj_get feature ''x'') @ '' ''
                               @ toString fmt (obj_get feature ''y'')))])])
      else if srs = Some ''EPSG:4326'' then
        Inr (JObj [(''gml:Point'', JObj
          [(''@srsName'', JStr ''urn:ogc:def:crs:EPSG::4326''),
           (''@srsDimension'', JInt 2),
           (''@gml:id'', JStr (''GmlPoint.'' @ toString fmt (obj_get feature ''id''))),
           (''gml:pos'', JStr (toString fmt (obj_get feature ''latitude'') @ '' ''
                               @ toString fmt (obj_get feature ''longitude'')))])])
      else Inl (Error ''unsupported SRS''))"

text \<open>
  The loop over \<open>Object.keys(feature)\<close> that fills the element named after the
  featureset. \<open>EXCLUDED_WFS_COLUMNS\<close> is imported from a file that is not at hand, so
  the set is the parameter \<open>excluded\<close>.
\<close>

fun gmlColumns ::
  "string set \<Rightarrow> ('r \<Rightarrow> string) \<Rightarrow> string option \<Rightarrow> 'r obj \<Rightarrow> string list \<Rightarrow> 'r obj
     \<Rightarrow> error + 'r obj" where
  "gmlColumns excluded fmt srs feature [] el = Inr el"
| "gmlColumns excluded fmt srs feature (key # ks) el =
     (if key \<in> excluded then gmlColumns excluded fmt srs feature ks el
      else if key = ''geom'' then
        (case gmlPoint fmt srs feature of
           Inl e \<Rightarrow> Inl e
         | Inr pt \<Rightarrow> gmlColumns excluded fmt srs feature ks (obj_set el key pt))
      else gmlColumns excluded fmt srs feature ks
             (obj_set el key (JStr (toString fmt (obj_get feature key)))))"

definition featureElement ::
  "string set \<Rightarrow> ('r \<Rightarrow> string) \<Rightarrow> string option \<Rightarrow> 'r obj \<Rightarrow> error + 'r obj" where
  "featureElement excluded fmt srs feature =
     gmlColumns excluded fmt srs feature (keys feature)
       [(''@gml:id'', JStr (''Point.'' @ toString fmt (obj_get feature ''id'')))]"

text \<open>
  \<open>featureXml\<close>: the \<open>wfs:member\<close> object, with the element stored under the key
  \<open>feature.featureset\<close> (converted to a property name).
\<close>

definition featureXml ::
  "string set \<Rightarrow> ('r \<Rightarrow> string) \<Rightarrow> string option \<Rightarrow> 'r obj \<Rightarrow> error + 'r jsval" where
  "featureXml excluded fmt srs feature =
     (case featureElement excluded fmt srs feature of
        Inl e \<Rightarrow> Inl e
      | Inr el \<Rightarrow>
          Inr (JObj [(''wfs:member'',
            JObj (obj_set [(''@xmlns:wfs'', JStr ''http://www.opengis.net/wfs/2.0'')]
                    (toString fmt (obj_get feature ''featureset'')) (JObj el)))]))"

text \<open>\<open>features.map\<close> with a callback that may throw: the first throw ends the map.\<close>

fun mapE :: "('a \<Rightarrow> error + 'b) \<Rightarrow> 'a list \<Rightarrow> error + 'b list" where
  "mapE f [] = Inr []"
| "mapE f (x # xs) =
     (case f x of
        Inl e \<Rightarrow> Inl e
      | Inr y \<Rightarrow> (case mapE f xs of Inl e \<Rightarrow> Inl e | Inr ys \<Rightarrow> Inr (y # ys)))"

definition gmlCollection ::
  "string set \<Rightarrow> ('r \<Rightarrow> string) \<Rightarrow> string option \<Rightarrow> 'r obj list \<Rightarrow> 'r jsval
     \<Rightarrow> error + 'r jsval" where
  "gmlCollection excluded fmt srs features numberMatched =
     (case mapE (featureXml excluded fmt srs) features of
        Inl e \<Rightarrow> Inl e
      | Inr members \<Rightarrow>
          Inr (JObj [(''wfs:FeatureCollection'', JObj
            [(''@xmlns:wfs'', JStr ''http://www.opengis.net/wfs/2.0''),
             (''@xmlns:gml'', JStr ''http://www.opengis.net/gml/3.2''),
             (''@xmlns:xsi'', JStr ''http://www.w3.org/2001/XMLSchema-instance''),
             (''@numberReturned'', JInt (int (length features))),
             (''@numberMatched'', numberMatched),
             (''#'', JArr members)])]))"

section \<open>The handler\<close>

text \<open>
  The part of \<open>wfsGetFeature\<close> after the queries: the branch on \<open>outputFormat\<close>. The
  body of the response is the object given to \<open>JSON.stringify\<close> or to the XML builder;
  the two library serialisers are not modelled. An error means that the handler threw
  before \<open>res.set\<close>, \<open>res.status\<close> and \<open>res.send\<close> were reached.
\<close>

definition respond ::
  "string set \<Rightarrow> ('r \<Rightarrow> string) \<Rightarrow> 'r wfsParams \<Rightarrow> 'r obj list \<Rightarrow> 'r jsval
     \<Rightarrow> error + 'r response" where
  "respond excluded fmt p features numberMatched =
     (if outputFormat p = ''GEOJSON'' then
        Inr \<lparr>contentType = ''application/json'', status = 200,
             body = geojsonCollection fmt (srsName p) features\<rparr>
      else
        (case gmlCollection excluded fmt (srsName p) features numberMatched of
           Inl e \<Rightarrow> Inl e
         | Inr ob \<Rightarrow> Inr \<lparr>contentType = ''text/xml'', status = 200, body = ob\<rparr>))"

text \<open>
  The whole handler. \<open>serverUrl\<close> is what \<open>getServerUrl(req)\<close> returns. The result is
  the list of calls made on the data source and the outcome: an error, no response of
  the handler's own (\<open>parsed == null\<close>), or the response sent.
\<close>

definition wfsGetFeature ::
  "string set \<Rightarrow> ('r \<Rightarrow> string) \<Rightarrow> 'r dataSource \<Rightarrow> string \<Rightarrow> 'r wfsParams option
     \<Rightarrow> 'r call list \<times> (error + 'r response option)" where
  "wfsGetFeature excluded fmt ds serverUrl parsed =
     (case refresh ds False of
        Some e \<Rightarrow> ([Refresh False], Inl e)
      | None \<Rightarrow>
          (case parsed of
             None \<Rightarrow> ([Refresh False], Inr None)
           | Some p \<Rightarrow>
               (case runQueries ds p of
                  (calls, Inl e) \<Rightarrow> (Refresh False # calls, Inl e)
                | (calls, Inr (features, numberMatched)) \<Rightarrow>
                    (Refresh False # calls,
                     (case respond excluded fmt p
                             (map (mapFeature fmt serverUrl) features) numberMatched of
                        Inl e \<Rightarrow> Inl e
                      | Inr r \<Rightarrow> Inr (Some r))))))"

section \<open>The revision without \<open>srsName\<close>\<close>

text \<open>
  The repository holds a second revision of the handler, \<open>src/wfs/getFeature.js\<close>,
  which does not read \<open>srsName\<close>. The definitions above embed the revision that
  does; the ones below, with the suffix \<open>_prev\<close>, embed the other one where it
  differs. \<open>mapFeature\<close>, the slots and \<open>featureSets\<close> are the same in both. This
  revision tests \<open>count\<close> and \<open>bbox\<close> for truthiness (a count of zero is no count),
  runs the total-count query when either is given and passes it the whole parameter
  mapping, copies \<open>geom\<close> into the GeoJSON properties, and always encodes the GML
  point in EPSG:3857.
\<close>

definition truthy :: "nat option \<Rightarrow> bool" where
  "truthy c = (case c of None \<Rightarrow> False | Some k \<Rightarrow> k \<noteq> 0)"

definition queryParams_prev :: "'r wfsParams \<Rightarrow> 'r obj" where
  "queryParams_prev p =
     (let q0 = bindAll paramSlot (map JStr (typeNames p)) [];
          q1 = (case bbox p of None \<Rightarrow> q0 | Some b \<Rightarrow> bindAll bboxSlot b q0);
          q2 = (case count p of
                  None \<Rightarrow> q1
                | Some c \<Rightarrow> if c \<noteq> 0 then obj_set q1 ''$count'' (JInt (int c)) else q1)
      in q2)"

definition fetchSql_prev :: "'r wfsParams \<Rightarrow> string" where
  "fetchSql_prev p = concat
     [nl, ''      SELECT *'',
      nl, ''      FROM all_features'',
      nl, ''      WHERE featureset IN ('', featureSets p, '')'',
      nl, ''      '', bboxClause p,
      nl, ''      '', (if truthy (count p) then ''LIMIT $count'' else []),
      nl, ''    '']"

definition countSql_prev :: "'r wfsParams \<Rightarrow> string" where
  "countSql_prev p = concat
     [nl, ''      SELECT COUNT(*) AS COUNT'',
      nl, ''      FROM all_features'',
      nl, ''      WHERE featureset IN ('', featureSets p, '')'',
      nl, ''      '', bboxClause p,
      nl, ''    '']"

definition runQueries_prev ::
  "'r dataSource \<Rightarrow> 'r wfsParams \<Rightarrow> 'r call list \<times> (error + 'r obj list \<times> 'r jsval)" where
  "runQueries_prev ds p =
     (let q = queryParams_prev p in
      case queryFeaturePackage ds (fetchSql_prev p) q of
        Inl e \<Rightarrow> ([Query (fetchSql_prev p) q], Inl e)
      | Inr features \<Rightarrow>
          if truthy (count p) \<or> bbox p \<noteq> None then
            (case queryFeaturePackage ds (countSql_prev p) q of
               Inl e \<Rightarrow> ([Query (fetchSql_prev p) q, Query (countSql_prev p) q], Inl e)
             | Inr [] \<Rightarrow> ([Query (fetchSql_prev p) q, Query (countSql_prev p) q], Inl TypeError)
             | Inr (row # rows) \<Rightarrow>
                 ([Query (fetchSql_prev p) q, Query (countSql_prev p) q],
                  Inr (features, obj_get row ''COUNT'')))
          else ([Query (fetchSql_prev p) q], Inr (features, JInt (int (length features)))))"

definition properties_prev :: "('r \<Rightarrow> string) \<Rightarrow> 'r obj \<Rightarrow> 'r obj" where
  "properties_prev fmt feature =
     foldl (\<lambda>props key. obj_set props key (JStr (toString fmt (obj_get feature key))))
       [(''GmlID'', JStr (''Point.'' @ toString fmt (obj_get feature ''id'')))]
       (keys feature)"

definition geojsonFeature_prev :: "('r \<Rightarrow> string) \<Rightarrow> 'r obj \<Rightarrow> 'r jsval" where
  "geojsonFeature_prev fmt feature =
     JObj [(''type'', JStr ''Feature''),
           (''geometry'', JObj [(''type'', JStr ''Point''),
                                (''coordinates'',
                                 JArr [obj_get feature ''x'', obj_get feature ''y''])]),
           (''properties'', JObj (properties_prev fmt feature))]"

fun gmlColumns_prev ::
  "string set \<Rightarrow> ('r \<Rightarrow> string) \<Rightarrow> 'r obj \<Rightarrow> string list \<Rightarrow> 'r obj \<Rightarrow> 'r obj" where
  "gmlColumns_prev excluded fmt feature [] el = el"
| "gmlColumns_prev excluded fmt feature (key # ks) el =
     (if key \<in> excluded then gmlColumns_prev excluded fmt feature ks el
      else if key = ''geom'' then
        gmlColumns_prev excluded fmt feature ks
          (obj_set el key (JObj [(''gml:Point'', JObj
             [(''@srsName'', JStr ''urn:ogc:def:crs:EPSG::3857''),
              (''@srsDimension'', JInt 2),
              (''@gml:id'', JStr (''GmlPoint.'' @ toString fmt (obj_get feature ''id''))),
              (''gml:pos'', JStr (toString fmt (obj_get feature ''x'') @ '' ''
                                  @ toString fmt (obj_get feature ''y'')))])]))
      else gmlColumns_prev excluded fmt feature ks
             (obj_set el key (JStr (toString fmt (obj_get feature key)))))"

definition featureElement_prev :: "string set \<Rightarrow> ('r \<Rightarrow> string) \<Rightarrow> 'r obj \<Rightarrow> 'r obj" where
  "featureElement_prev excluded fmt feature =
     gmlColumns_prev excluded fmt feature (keys feature)
       [(''@gml:id'', JStr (''Point.'' @ toString fmt (obj_get feature ''id'')))]"

definition featureXml_prev :: "string set \<Rightarrow> ('r \<Rightarrow> string) \<Rightarrow> 'r obj \<Rightarrow> 'r jsval" where
  "featureXml_prev excluded fmt feature =
     JObj [(''wfs:member'',
        JObj (obj_set [(''@xmlns:wfs'', JStr ''http://www.opengis.net/wfs/2.0'')]
                (toString fmt (obj_get feature ''featureset''))
                (JObj (featureElement_prev excluded fmt feature))))]"

definition respond_prev ::
  "string set \<Rightarrow> ('r \<Rightarrow> string) \<Rightarrow> string \<Rightarrow> 'r wfsParams \<Rightarrow> 'r obj list \<Rightarrow> 'r jsval
     \<Rightarrow> 'r response" where
  "respond_prev excluded fmt serverUrl p features numberMatched =
     (if outputFormat p = ''GEOJSON'' then
        \<lparr>contentType = ''application/json'', status = 200,
         body = JObj [(''type'', JStr ''FeatureCollection''),
                      (''features'', JArr (map (geojsonFeature_prev fmt) features))]\<rparr>
      else
        \<lparr>contentType = ''text/xml'', status = 200,
         body = JObj [(''wfs:FeatureCollection'', JObj
           [(''@xmlns:wfs'', JStr ''http://www.opengis.net/wfs/2.0''),
            (''@xmlns:gml'', JStr ''http://www.opengis.net/gml/3.2''),
            (''@xmlns:xsi'', JStr (''http://www.w3.org/2001/XMLSchema-instance '' @ serverUrl
               @ ''/?SERVICE=WFS&VERSION=2.0.0&REQUEST=DescribeFeatureType&TYPENAME=plans'')),
            (''@numberReturned'', JInt (int (length features))),
            (''@numberMatched'', numberMatched),
            (''#'', JArr (map (featureXml_prev excluded fmt) features))])]\<rparr>)"

text \<open>
  The server URL of this revision is \<open>`${req.protocol}://${req.get('host')}`\<close>.
\<close>

definition wfsGetFeature_prev ::
  "string set \<Rightarrow> ('r \<Rightarrow> string) \<Rightarrow> 'r dataSource \<Rightarrow> string \<Rightarrow> string
     \<Rightarrow> 'r wfsParams option \<Rightarrow> 'r call list \<times> (error + 'r response option)" where
  "wfsGetFeature_prev excluded fmt ds protocol host parsed =
     (case refresh ds False of
        Some e \<Rightarrow> ([Refresh False], Inl e)
      | None \<Rightarrow>
          (case parsed of
             None \<Rightarrow> ([Refresh False], Inr None)
           | Some p \<Rightarrow>
               (case runQueries_prev ds p of
                  (calls, Inl e) \<Rightarrow> (Refresh False # calls, Inl e)
                | (calls, Inr (features, numberMatched)) \<Rightarrow>
                    (Refresh False # calls,
                     Inr (Some (respond_prev excluded fmt (protocol @ ''://'' @ host) p
                            (map (mapFeature fmt (protocol @ ''://'' @ host)) features)
                            numberMatched))))))"

section \<open>Observations\<close>

text \<open>
  What the statements below observe: the queries a run of the handler made, and the
  parts of a response document. These definitions are not code of the handler.
\<close>

definition paramsPassed :: "string \<Rightarrow> 'r call list \<Rightarrow> 'r obj list" where
  "paramsPassed sql calls =
     concat (map (\<lambda>c. case c of Refresh b \<Rightarrow> [] | Query s q \<Rightarrow> if s = sql then [q] else []) calls)"


text \<open>
  The data source is a parameter of the model. \<open>answers ds p matched\<close> is the
  hypothesis that \<open>ds\<close> answers the two queries of the request \<open>p\<close> as a store whose
  rows matching the type names and the bounding box are \<open>matched\<close>: the fetch query
  returns them, cut at the limit when there is one, and the total-count query returns a
  single row with their number.
\<close>

definition answers :: "'r dataSource \<Rightarrow> 'r wfsParams \<Rightarrow> 'r obj list \<Rightarrow> bool" where
  "answers ds p matched =
     (queryFeaturePackage ds (fetchSql p) (queryParams p)
        = Inr (case count p of None \<Rightarrow> matched | Some k \<Rightarrow> take k matched)
      \<and> queryFeaturePackage ds (countSql p) (remainingQueryParams (queryParams p))
        = Inr [[(''totalCount'', JInt (int (length matched)))]])"

fun field :: "'r jsval \<Rightarrow> string \<Rightarrow> 'r jsval" where
  "field (JObj ps) k = obj_get ps k"
| "field v k = JUndefined"

definition path :: "'r jsval \<Rightarrow> string list \<Rightarrow> 'r jsval" where
  "path v ks = foldl field v ks"

fun items :: "'r jsval \<Rightarrow> 'r jsval list" where
  "items (JArr xs) = xs"
| "items v = []"

fun keysOf :: "'r jsval \<Rightarrow> string list" where
  "keysOf (JObj ps) = keys ps"
| "keysOf v = []"

text \<open>
  In the object notation of the XML builder a key that starts with \<open>@\<close> is an
  attribute of the element; the other keys of a feature element are its child elements.
\<close>

definition isAttributeKey :: "string \<Rightarrow> bool" where
  "isAttributeKey k = (case k of [] \<Rightarrow> False | c # cs \<Rightarrow> c = CHR ''@'')"

definition childElementNames :: "'r jsval \<Rightarrow> string list" where
  "childElementNames v = filter (\<lambda>k. \<not> isAttributeKey k) (keysOf v)"

definition geojsonFeatures :: "'r response \<Rightarrow> 'r jsval list" where
  "geojsonFeatures r = items (path (body r) [''features''])"

definition gmlMembers :: "'r response \<Rightarrow> 'r jsval list" where
  "gmlMembers r = items (path (body r) [''wfs:FeatureCollection'', ''#''])"

text \<open>The element of a member that is named after the featureset of \<open>feature\<close>.\<close>

definition gmlElement :: "('r \<Rightarrow> string) \<Rightarrow> 'r obj \<Rightarrow> 'r jsval \<Rightarrow> 'r jsval" where
  "gmlElement fmt feature m =
     path m [''wfs:member'', toString fmt (obj_get feature ''featureset'')]"

section \<open>An example request\<close>

text \<open>
  The scenario of the specification: one type name, a bounding box, \<open>count = 5\<close>, GML
  output in EPSG:4326, and a store with twelve matching rows. Numbers that are not
  integers are written by their rendering, so \<open>fmt\<close> is the identity. \<open>sourceFor\<close> is a
  data source that answers the two queries of one request and rejects any other.
\<close>

definition exampleRow :: "nat \<Rightarrow> string obj" where
  "exampleRow i =
     [(''id'', JInt (int i)), (''featureset'', JStr ''parks''),
      (''x'', JNum ''3.5''), (''y'', JNum ''7.25''),
      (''latitude'', JNum ''-27.47''), (''longitude'', JNum ''153.02''),
      (''geom'', JNull), (''name'', JStr ''Roma Street'')]"

definition exampleMatched :: "string obj list" where
  "exampleMatched = map exampleRow [1..<13]"

definition exampleParams :: "string wfsParams" where
  "exampleParams =
     \<lparr>typeNames = [''parks''], bbox = Some [JInt 0, JInt 0, JInt 10, JInt 10],
      outputFormat = ''GML'', count = Some 5, srsName = Some ''EPSG:4326''\<rparr>"

definition exampleExcluded :: "string set" where
  "exampleExcluded = {''id'', ''featureset''}"

definition sourceFor :: "'r wfsParams \<Rightarrow> 'r obj list \<Rightarrow> 'r dataSource" where
  "sourceFor p matched =
     \<lparr>refresh = (\<lambda>forceFull. None),
      queryFeaturePackage = (\<lambda>sql q.
        if sql = fetchSql p \<and> q = queryParams p
        then Inr (case count p of None \<Rightarrow> matched | Some k \<Rightarrow> take k matched)
        else if sql = countSql p \<and> q = remainingQueryParams (queryParams p)
        then Inr [[(''totalCount'', JInt (int (length matched)))]]
        else Inl (Rejected ''unexpected query''))\<rparr>"

section \<open>Reading and writing properties\<close>

lemma map_of_obj_set: "map_of (obj_set ob k v) = (map_of ob)(k \<mapsto> v)"
  by (induction ob) (auto simp: fun_eq_iff)

lemma obj_get_obj_set:
  "obj_get (obj_set ob k v) k' = (if k' = k then v else obj_get ob k')"
  by (simp add: obj_get_def map_of_obj_set)

lemma keys_obj_set: "set (keys (obj_set ob k v)) = insert k (set (keys ob))"
  by (induction ob) (force simp: keys_def)+

lemma wf_obj_set: "wf_obj ob \<Longrightarrow> wf_obj (obj_set ob k v)"
  unfolding wf_obj_def
proof (induction ob)
  case Nil
  then show ?case by (simp add: keys_def)
next
  case (Cons a ob)
  obtain k' v' where a: "a = (k', v')" by (cases a)
  show ?case
  proof (cases "k' = k")
    case True
    with Cons.prems a show ?thesis by (simp add: keys_def)
  next
    case False
    have "k' \<notin> set (keys (obj_set ob k v))"
      using Cons.prems a False by (simp add: keys_obj_set) (simp add: keys_def)
    moreover have "distinct (keys (obj_set ob k v))"
      using Cons by (simp add: keys_def)
    ultimately show ?thesis using a False by (simp add: keys_def)
  qed
qed

lemma obj_get_absent: "k \<notin> set (keys ob) \<Longrightarrow> obj_get ob k = JUndefined"
  using map_of_eq_None_iff[of ob k] by (simp add: obj_get_def keys_def)

lemma spread_Cons: "spread t ((k, v) # s) = spread (obj_set t k v) s"
  by (simp add: spread_def)

lemma map_of_spread:
  "distinct (map fst s) \<Longrightarrow> map_of (spread t s) = map_of t ++ map_of s"
proof (induction s arbitrary: t)
  case Nil
  then show ?case by (simp add: spread_def)
next
  case (Cons a s)
  obtain k v where a: "a = (k, v)" by (cases a)
  have notin: "k \<notin> dom (map_of s)"
    using Cons.prems a by (simp add: dom_map_of_conv_image_fst)
  have "map_of (spread t (a # s)) = (map_of t)(k \<mapsto> v) ++ map_of s"
    using Cons a by (simp add: spread_Cons map_of_obj_set)
  also have "\<dots> = map_of t ++ map_of (a # s)"
    using notin a by (auto simp: fun_eq_iff map_add_def split: option.splits)
  finally show ?case .
qed

lemma keys_spread: "set (keys (spread t s)) = set (keys t) \<union> set (keys s)"
proof (induction s arbitrary: t)
  case Nil
  then show ?case by (simp add: spread_def keys_def)
next
  case (Cons a s)
  obtain k v where a: "a = (k, v)" by (cases a)
  show ?case using Cons[of "obj_set t k v"] a
    by (simp add: spread_Cons keys_obj_set) (auto simp: keys_def)
qed

lemma wf_spread: "wf_obj t \<Longrightarrow> wf_obj (spread t s)"
proof (induction s arbitrary: t)
  case Nil
  then show ?case by (simp add: spread_def)
next
  case (Cons a s)
  obtain k v where a: "a = (k, v)" by (cases a)
  show ?case using Cons a by (simp add: spread_Cons wf_obj_set)
qed

section \<open>Parameter slots\<close>

lemma digit_char_inj: "d < 10 \<Longrightarrow> e < 10 \<Longrightarrow> digit_char d = digit_char e \<Longrightarrow> d = e"
proof -
  assume d: "d < 10" and e: "e < 10" and eq: "digit_char d = digit_char e"
  have code: "of_char (digit_char n) = 48 + n" if "n < 10" for n :: nat
  proof -
    from that have "n = 0 \<or> n = 1 \<or> n = 2 \<or> n = 3 \<or> n = 4 \<or> n = 5 \<or> n = 6 \<or> n = 7 \<or> n = 8 \<or> n = 9"
      by arith
    then show ?thesis by (elim disjE) (simp_all add: digit_char_def)
  qed
  have "(of_char (digit_char d) :: nat) = of_char (digit_char e)" using eq by simp
  then show "d = e" using code[OF d] code[OF e] by simp
qed

lemma decimal_nonempty: "decimal n \<noteq> []"
  by (subst decimal.simps) simp

lemma decimal_inj: "decimal n = decimal m \<Longrightarrow> n = m"
proof (induction n arbitrary: m rule: decimal.induct)
  case (1 n)
  show ?case
  proof (cases "n < 10")
    case n: True
    show ?thesis
    proof (cases "m < 10")
      case True
      with n "1.prems" show ?thesis
        by (simp add: decimal.simps[of n] decimal.simps[of m] digit_char_inj)
    next
      case False
      with n "1.prems" decimal_nonempty[of "m div 10"] show ?thesis
        by (simp add: decimal.simps[of n] decimal.simps[of m])
    qed
  next
    case n: False
    show ?thesis
    proof (cases "m < 10")
      case True
      with n "1.prems" decimal_nonempty[of "n div 10"] show ?thesis
        by (simp add: decimal.simps[of n] decimal.simps[of m])
    next
      case False
      with n "1.prems" have eq: "decimal (n div 10) = decimal (m div 10)"
        and dg: "digit_char (n mod 10) = digit_char (m mod 10)"
        by (simp_all add: decimal.simps[of n] decimal.simps[of m])
      have "n div 10 = m div 10" using "1.IH"[OF n eq] .
      moreover have "n mod 10 = m mod 10" using dg by (intro digit_char_inj) simp_all
      ultimately show ?thesis by (metis div_mult_mod_eq)
    qed
  qed
qed

lemma paramSlot_inj: "paramSlot i = paramSlot j \<longleftrightarrow> i = j"
  by (auto simp: paramSlot_def dest: decimal_inj)

lemma bboxSlot_inj: "bboxSlot i = bboxSlot j \<longleftrightarrow> i = j"
  by (auto simp: bboxSlot_def dest: decimal_inj)

lemma slots_disjoint:
  "paramSlot i \<noteq> bboxSlot j" "paramSlot i \<noteq> ''$count''" "bboxSlot j \<noteq> ''$count''"
  by (simp_all add: paramSlot_def bboxSlot_def)

lemma bindAll_spread:
  "bindAll slot vs ob = spread ob (zip (map slot [0..<length vs]) vs)"
proof -
  have "foldl (\<lambda>ob (i, v). obj_set ob (slot i) v) ob (enumerate n vs)
        = foldl (\<lambda>ob (k, v). obj_set ob k v) ob (zip (map slot [n..<n + length vs]) vs)" for n
  proof (induction vs arbitrary: n ob)
    case Nil
    then show ?case by simp
  next
    case (Cons v vs)
    have "[n..<n + length (v # vs)] = n # [Suc n..<Suc n + length vs]"
      by (subst upt_rec) simp
    then show ?case using Cons[of _ "Suc n"] by simp
  qed
  from this[of 0] show ?thesis by (simp add: bindAll_def spread_def)
qed

lemma map_of_bindAll:
  assumes "inj slot"
  shows "map_of (bindAll slot vs ob) = map_of ob ++ map_of (zip (map slot [0..<length vs]) vs)"
proof -
  have "distinct (map slot [0..<length vs])"
    using assms by (simp add: distinct_map inj_on_def inj_def)
  then have "distinct (map fst (zip (map slot [0..<length vs]) vs))" by simp
  then show ?thesis by (simp add: bindAll_spread map_of_spread)
qed

lemma keys_bindAll:
  "set (keys (bindAll slot vs ob)) = set (keys ob) \<union> slot ` {0..<length vs}"
  by (simp add: bindAll_spread keys_spread) (simp add: keys_def)

lemma obj_get_bindAll_slot:
  assumes "inj slot" "i < length vs"
  shows "obj_get (bindAll slot vs ob) (slot i) = vs ! i"
proof -
  have d: "distinct (map slot [0..<length vs])"
    using assms(1) by (simp add: distinct_map inj_on_def inj_def)
  have "map_of (zip (map slot [0..<length vs]) vs) (map slot [0..<length vs] ! i) = Some (vs ! i)"
    using d assms(2) by (intro map_of_zip_nth) simp_all
  then have "map_of (zip (map slot [0..<length vs]) vs) (slot i) = Some (vs ! i)"
    using assms(2) by simp
  then show ?thesis by (simp add: obj_get_def map_of_bindAll[OF assms(1)] map_add_def)
qed

lemma obj_get_spread_other:
  "k \<notin> set (keys s) \<Longrightarrow> obj_get (spread ob s) k = obj_get ob k"
proof (induction s arbitrary: ob)
  case Nil
  then show ?case by (simp add: spread_def)
next
  case (Cons a s)
  obtain k' v' where a: "a = (k', v')" by (cases a)
  with Cons show ?case by (simp add: spread_Cons obj_get_obj_set keys_def)
qed

lemma obj_get_bindAll_other:
  assumes "k \<notin> slot ` {0..<length vs}"
  shows "obj_get (bindAll slot vs ob) k = obj_get ob k"
proof -
  have "k \<notin> set (keys (zip (map slot [0..<length vs]) vs))"
    using assms by (simp add: keys_def)
  then show ?thesis by (simp add: bindAll_spread obj_get_spread_other)
qed

section \<open>The queries of a request\<close>

lemma fetchSql_neq_countSql: "fetchSql p \<noteq> countSql p'"
  by (simp add: fetchSql_def countSql_def nl_def)

lemma inj_paramSlot: "inj paramSlot"
  by (simp add: inj_def paramSlot_inj)

lemma inj_bboxSlot: "inj bboxSlot"
  by (simp add: inj_def bboxSlot_inj)

lemma keys_Nil: "keys [] = []"
  by (simp add: keys_def)

lemma keys_queryParams:
  "set (keys (queryParams p)) =
     paramSlot ` {0..<length (typeNames p)}
     \<union> (case bbox p of None \<Rightarrow> {} | Some b \<Rightarrow> bboxSlot ` {0..<length b})
     \<union> (case count p of None \<Rightarrow> {} | Some c \<Rightarrow> {''$count''})"
  by (auto simp: queryParams_def Let_def keys_bindAll keys_obj_set keys_Nil split: option.splits)

lemma queryParams_typeName:
  fixes p :: "'r wfsParams"
  assumes "i < length (typeNames p)"
  shows "obj_get (queryParams p) (paramSlot i) = JStr (typeNames p ! i)"
proof -
  have a: "obj_get (bindAll paramSlot (map JStr (typeNames p)) []) (paramSlot i)
             = (JStr (typeNames p ! i) :: 'r jsval)"
    using obj_get_bindAll_slot[OF inj_paramSlot, of i "map JStr (typeNames p)" "[]"] assms by simp
  have b: "paramSlot i \<notin> bboxSlot ` {0..<n}" for n
    using slots_disjoint(1) by auto
  show ?thesis
    using a
    by (simp add: queryParams_def Let_def obj_get_obj_set slots_disjoint obj_get_bindAll_other[OF b]
        split: option.splits)
qed

lemma queryParams_bbox:
  assumes "bbox p = Some b" "i < length b"
  shows "obj_get (queryParams p) (bboxSlot i) = b ! i"
  using assms obj_get_bindAll_slot[OF inj_bboxSlot, of i b]
  by (simp add: queryParams_def Let_def obj_get_obj_set slots_disjoint split: option.splits)

lemma queryParams_count:
  "count p = Some c \<Longrightarrow> obj_get (queryParams p) ''$count'' = JInt (int c)"
  by (simp add: queryParams_def Let_def obj_get_obj_set)

lemma map_of_rest_without: "map_of (rest_without k ob) = (map_of ob)(k := None)"
  by (induction ob) (auto simp: rest_without_def fun_eq_iff)

lemma keys_rest_without: "set (keys (rest_without k ob)) = set (keys ob) - {k}"
  by (induction ob) (auto simp: rest_without_def keys_def)

lemma obj_get_remaining:
  "k \<noteq> ''$count'' \<Longrightarrow> obj_get (remainingQueryParams q) k = obj_get q k"
  by (simp add: remainingQueryParams_def obj_get_def map_of_rest_without)

lemma count_not_in_remaining: "''$count'' \<notin> set (keys (remainingQueryParams q))"
  by (simp add: remainingQueryParams_def keys_rest_without)

lemma runQueries_calls:
  "fst (runQueries ds p) =
     Query (fetchSql p) (queryParams p) #
     (case queryFeaturePackage ds (fetchSql p) (queryParams p) of
        Inl e \<Rightarrow> []
      | Inr fs \<Rightarrow>
          (case count p of
             None \<Rightarrow> []
           | Some c \<Rightarrow> [Query (countSql p) (remainingQueryParams (queryParams p))]))"
  by (simp add: runQueries_def Let_def split: sum.splits option.splits list.splits)

lemma paramsPassed_count:
  "paramsPassed (countSql p) (fst (runQueries ds p)) =
     (case queryFeaturePackage ds (fetchSql p) (queryParams p) of
        Inl e \<Rightarrow> []
      | Inr fs \<Rightarrow>
          (case count p of
             None \<Rightarrow> []
           | Some c \<Rightarrow> [remainingQueryParams (queryParams p)]))"
  using fetchSql_neq_countSql[of p p]
  by (simp add: runQueries_calls paramsPassed_def split: sum.splits option.splits)

lemma paramsPassed_fetch:
  "paramsPassed (fetchSql p) (fst (runQueries ds p)) = [queryParams p]"
  using fetchSql_neq_countSql[of p p]
  by (auto simp: runQueries_calls paramsPassed_def split: sum.splits option.splits)

section \<open>Decorated features and the GeoJSON document\<close>

lemma keys_Cons: "keys ((k, v) # ob) = k # keys ob"
  by (simp add: keys_def)

lemma obj_get_Cons: "obj_get ((k, v) # ob) k' = (if k' = k then v else obj_get ob k')"
  by (simp add: obj_get_def)

lemma obj_get_Nil: "obj_get [] k = JUndefined"
  by (simp add: obj_get_def)

lemma path_Nil: "path v [] = v"
  by (simp add: path_def)

lemma path_Cons: "path v (k # ks) = path (field v k) ks"
  by (simp add: path_def)

lemma obj_get_spread_present:
  assumes "distinct (map fst s)" "map_of s k = Some v"
  shows "obj_get (spread t s) k = v"
proof -
  have "map_of (spread t s) k = (map_of t ++ map_of s) k"
    using map_of_spread[OF assms(1), of t] by simp
  also have "\<dots> = Some v" using assms(2) by (simp add: map_add_def)
  finally show ?thesis by (simp add: obj_get_def)
qed

lemma obj_get_mapFeature:
  assumes "wf_obj feature" "k \<noteq> ''viewerUrl'' \<or> k \<in> set (keys feature)"
  shows "obj_get (mapFeature fmt serverUrl feature) k = obj_get feature k"
proof (cases "k \<in> set (keys feature)")
  case True
  have d: "distinct (map fst feature)" using assms(1) by (simp add: wf_obj_def keys_def)
  from True have "map_of feature k \<noteq> None"
    by (simp add: map_of_eq_None_iff keys_def)
  then obtain v where v: "map_of feature k = Some v" by blast
  have "obj_get (mapFeature fmt serverUrl feature) k = v"
    unfolding mapFeature_def by (rule obj_get_spread_present[OF d v])
  moreover have "obj_get feature k = v" using v by (simp add: obj_get_def)
  ultimately show ?thesis by simp
next
  case False
  with assms(2) have ne: "k \<noteq> ''viewerUrl''" by blast
  have "obj_get (mapFeature fmt serverUrl feature) k
          = obj_get [(''viewerUrl'',
         JStr (serverUrl @ ''/viewer#camera='' @ toString fmt (obj_get feature ''latitude'')
               @ '','' @ toString fmt (obj_get feature ''longitude'') @ '',18.00z''))] k"
    unfolding mapFeature_def by (rule obj_get_spread_other[OF False])
  also have "\<dots> = JUndefined" using ne by (simp add: obj_get_Cons obj_get_Nil)
  finally show ?thesis using False by (simp add: obj_get_absent)
qed

lemma obj_get_mapFeature_viewerUrl:
  assumes "''viewerUrl'' \<notin> set (keys feature)"
  shows "obj_get (mapFeature fmt serverUrl feature) ''viewerUrl'' =
           JStr (serverUrl @ ''/viewer#camera='' @ toString fmt (obj_get feature ''latitude'')
                 @ '','' @ toString fmt (obj_get feature ''longitude'') @ '',18.00z'')"
  using assms by (simp add: mapFeature_def obj_get_spread_other obj_get_Cons)

lemma keys_mapFeature:
  "set (keys (mapFeature fmt serverUrl feature)) = insert ''viewerUrl'' (set (keys feature))"
  by (simp add: mapFeature_def keys_spread keys_Cons keys_Nil)

lemma wf_mapFeature: "wf_obj (mapFeature fmt serverUrl feature)"
  unfolding mapFeature_def by (rule wf_spread) (simp add: wf_obj_def keys_def)

subsection \<open>GeoJSON\<close>

lemma properties_loop_get:
  "obj_get (foldl (\<lambda>props key. if key = ''geom'' then props
                     else obj_set props key (JStr (toString fmt (obj_get feature key)))) acc ks) k
   = (if k \<in> set ks \<and> k \<noteq> ''geom'' then JStr (toString fmt (obj_get feature k))
      else obj_get acc k)"
  by (induction ks arbitrary: acc) (auto simp: obj_get_obj_set)

lemma properties_loop_keys:
  "set (keys (foldl (\<lambda>props key. if key = ''geom'' then props
                     else obj_set props key (JStr (toString fmt (obj_get feature key)))) acc ks))
   = set (keys acc) \<union> (set ks - {''geom''})"
  by (induction ks arbitrary: acc) (auto simp: keys_obj_set)

lemma obj_get_properties:
  "obj_get (properties fmt feature) k =
     (if k \<in> set (keys feature) \<and> k \<noteq> ''geom'' then JStr (toString fmt (obj_get feature k))
      else if k = ''GmlID'' then JStr (''Point.'' @ toString fmt (obj_get feature ''id''))
      else JUndefined)"
  by (simp add: properties_def properties_loop_get obj_get_Cons obj_get_Nil)

lemma keys_properties:
  "set (keys (properties fmt feature)) = insert ''GmlID'' (set (keys feature) - {''geom''})"
  by (simp add: properties_def properties_loop_keys keys_Cons keys_Nil)

lemma respond_geojson:
  assumes "outputFormat p = ''GEOJSON''"
  shows "\<exists>r. respond excluded fmt p features numberMatched = Inr r
           \<and> status r = 200 \<and> contentType r = ''application/json''
           \<and> geojsonFeatures r = map (geojsonFeature fmt (srsName p)) features"
  using assms
  by (simp add: respond_def geojsonFeatures_def geojsonCollection_def path_Cons path_Nil
      obj_get_Cons)

lemma geojsonFeature_parts:
  "path (geojsonFeature fmt srs feature) [''geometry'', ''coordinates''] = JArr (coordinates srs feature)"
  "path (geojsonFeature fmt srs feature) [''geometry'', ''type''] = JStr ''Point''"
  "path (geojsonFeature fmt srs feature) [''properties''] = JObj (properties fmt feature)"
  "path (geojsonFeature fmt srs feature) [''type''] = JStr ''Feature''"
  by (simp_all add: geojsonFeature_def path_Cons path_Nil obj_get_Cons)

section \<open>The GML document\<close>


lemma gmlColumns_fail:
  assumes "gmlPoint fmt srs feature = Inl e" "''geom'' \<in> set ks" "''geom'' \<notin> excluded"
  shows "gmlColumns excluded fmt srs feature ks el = Inl e"
  using assms by (induction ks arbitrary: el) auto

lemma gmlColumns_Inr:
  assumes "gmlColumns excluded fmt srs feature ks el = Inr el'"
  shows "set (keys el') = set (keys el) \<union> (set ks - excluded)
       \<and> (\<forall>k. obj_get el' k =
             (if k \<in> set ks \<and> k \<notin> excluded then
                (if k = ''geom'' then (case gmlPoint fmt srs feature of Inr pt \<Rightarrow> pt | Inl e \<Rightarrow> JUndefined)
                 else JStr (toString fmt (obj_get feature k)))
              else obj_get el k))"
  using assms
proof (induction ks arbitrary: el)
  case Nil
  then show ?case by simp
next
  case (Cons key ks)
  show ?case
  proof (cases "key \<in> excluded")
    case True
    with Cons.prems have "gmlColumns excluded fmt srs feature ks el = Inr el'" by simp
    from Cons.IH[OF this] True show ?thesis by auto
  next
    case notex: False
    show ?thesis
    proof (cases "key = ''geom''")
      case True
      with notex Cons.prems obtain pt where pt: "gmlPoint fmt srs feature = Inr pt"
        and rec: "gmlColumns excluded fmt srs feature ks (obj_set el key pt) = Inr el'"
        by (auto split: sum.splits)
      from Cons.IH[OF rec] True notex pt show ?thesis
        by (auto simp: keys_obj_set obj_get_obj_set)
    next
      case False
      with notex Cons.prems have
        rec: "gmlColumns excluded fmt srs feature ks
               (obj_set el key (JStr (toString fmt (obj_get feature key)))) = Inr el'"
        by simp
      from Cons.IH[OF rec] False notex show ?thesis
        by (auto simp: keys_obj_set obj_get_obj_set)
    qed
  qed
qed

lemma gmlColumns_total:
  assumes "''geom'' \<in> set ks \<and> ''geom'' \<notin> excluded \<longrightarrow> (\<exists>pt. gmlPoint fmt srs feature = Inr pt)"
  shows "\<exists>el'. gmlColumns excluded fmt srs feature ks el = Inr el'"
  using assms
proof (induction ks arbitrary: el)
  case Nil
  then show ?case by simp
next
  case (Cons key ks)
  then show ?case by (cases "key \<in> excluded"; cases "key = ''geom''") auto
qed


lemma featureElement_total:
  assumes "srs = Some ''EPSG:3857'' \<or> srs = Some ''EPSG:4326''
           \<or> ''geom'' \<notin> set (keys feature) \<or> ''geom'' \<in> excluded"
  shows "\<exists>el. featureElement excluded fmt srs feature = Inr el"
  unfolding featureElement_def
  by (rule gmlColumns_total) (use assms in \<open>auto simp: gmlPoint_def\<close>)

lemma featureElement_Inr:
  assumes "featureElement excluded fmt srs feature = Inr el"
  shows "set (keys el) = insert ''@gml:id'' (set (keys feature) - excluded)"
    and "k \<in> set (keys feature) \<Longrightarrow> k \<notin> excluded \<Longrightarrow> k \<noteq> ''geom'' \<Longrightarrow>
           obj_get el k = JStr (toString fmt (obj_get feature k))"
    and "''geom'' \<in> set (keys feature) \<Longrightarrow> ''geom'' \<notin> excluded \<Longrightarrow>
           gmlPoint fmt srs feature = Inr (obj_get el ''geom'')"
    and "''@gml:id'' \<notin> set (keys feature) \<or> ''@gml:id'' \<in> excluded \<Longrightarrow>
           obj_get el ''@gml:id'' = JStr (''Point.'' @ toString fmt (obj_get feature ''id''))"
proof -
  note r = gmlColumns_Inr[OF assms[unfolded featureElement_def]]
  show "set (keys el) = insert ''@gml:id'' (set (keys feature) - excluded)"
    using r by (simp add: keys_Cons keys_Nil)
  show "obj_get el k = JStr (toString fmt (obj_get feature k))"
    if "k \<in> set (keys feature)" "k \<notin> excluded" "k \<noteq> ''geom''"
    using r that by simp
  show "gmlPoint fmt srs feature = Inr (obj_get el ''geom'')"
    if g: "''geom'' \<in> set (keys feature)" "''geom'' \<notin> excluded"
  proof (cases "gmlPoint fmt srs feature")
    case (Inl e)
    have "featureElement excluded fmt srs feature = Inl e"
      unfolding featureElement_def by (rule gmlColumns_fail[OF Inl g])
    with assms show ?thesis by simp
  next
    case (Inr pt)
    with r g show ?thesis by simp
  qed
  show "obj_get el ''@gml:id'' = JStr (''Point.'' @ toString fmt (obj_get feature ''id''))"
    if "''@gml:id'' \<notin> set (keys feature) \<or> ''@gml:id'' \<in> excluded"
    using r that by (auto simp: obj_get_Cons)
qed

lemma featureXml_Inr:
  "featureXml excluded fmt srs feature = Inr m \<longleftrightarrow>
     (\<exists>el. featureElement excluded fmt srs feature = Inr el
        \<and> m = JObj [(''wfs:member'',
            JObj (obj_set [(''@xmlns:wfs'', JStr ''http://www.opengis.net/wfs/2.0'')]
                    (toString fmt (obj_get feature ''featureset'')) (JObj el)))])"
  by (auto simp: featureXml_def split: sum.splits)


lemma gmlElement_featureXml:
  assumes "featureXml excluded fmt srs feature = Inr m"
  shows "\<exists>el. featureElement excluded fmt srs feature = Inr el \<and> gmlElement fmt feature m = JObj el"
proof -
  from assms obtain el where el: "featureElement excluded fmt srs feature = Inr el"
    and m: "m = JObj [(''wfs:member'',
            JObj (obj_set [(''@xmlns:wfs'', JStr ''http://www.opengis.net/wfs/2.0'')]
                    (toString fmt (obj_get feature ''featureset'')) (JObj el)))]"
    unfolding featureXml_Inr by blast
  have "gmlElement fmt feature m = JObj el"
    unfolding m gmlElement_def path_Cons path_Nil
    by (simp add: obj_get_Cons obj_get_obj_set del: obj_set.simps)
  with el show ?thesis by blast
qed

lemma mapE_Inr:
  "mapE f xs = Inr ys \<Longrightarrow> length ys = length xs \<and> (\<forall>i<length xs. f (xs ! i) = Inr (ys ! i))"
proof (induction xs arbitrary: ys)
  case Nil
  then show ?case by simp
next
  case (Cons x xs)
  then obtain y ys' where y: "f x = Inr y" and ys': "mapE f xs = Inr ys'" and ys: "ys = y # ys'"
    by (auto split: sum.splits)
  from Cons.IH[OF ys'] y ys show ?case by (auto simp: nth_Cons split: nat.splits)
qed


lemma mapE_total:
  "(\<forall>x \<in> set xs. \<exists>y. f x = Inr y) \<Longrightarrow> \<exists>ys. mapE f xs = Inr ys"
proof (induction xs)
  case Nil
  then show ?case by simp
next
  case (Cons x xs)
  then obtain y ys where "f x = Inr y" "mapE f xs = Inr ys" by auto
  then show ?case by simp
qed


lemma respond_gml_Inr:
  assumes "outputFormat p \<noteq> ''GEOJSON''"
    and "respond excluded fmt p features numberMatched = Inr r"
  shows "status r = 200 \<and> contentType r = ''text/xml''
       \<and> length (gmlMembers r) = length features
       \<and> (\<forall>i<length features.
            featureXml excluded fmt (srsName p) (features ! i) = Inr (gmlMembers r ! i))
       \<and> path (body r) [''wfs:FeatureCollection'', ''@numberReturned''] = JInt (int (length features))
       \<and> path (body r) [''wfs:FeatureCollection'', ''@numberMatched''] = numberMatched"
proof -
  from assms obtain members where
    m: "mapE (featureXml excluded fmt (srsName p)) features = Inr members"
    by (auto simp: respond_def gmlCollection_def split: sum.splits)
  with assms have r: "r = \<lparr>contentType = ''text/xml'', status = 200, body =
      JObj [(''wfs:FeatureCollection'', JObj
            [(''@xmlns:wfs'', JStr ''http://www.opengis.net/wfs/2.0''),
             (''@xmlns:gml'', JStr ''http://www.opengis.net/gml/3.2''),
             (''@xmlns:xsi'', JStr ''http://www.w3.org/2001/XMLSchema-instance''),
             (''@numberReturned'', JInt (int (length features))),
             (''@numberMatched'', numberMatched),
             (''#'', JArr members)])]\<rparr>"
    by (simp add: respond_def gmlCollection_def)
  have gm: "gmlMembers r = members"
    by (simp add: r gmlMembers_def path_Cons path_Nil obj_get_Cons)
  show ?thesis
    using mapE_Inr[OF m] gm by (simp add: r path_Cons path_Nil obj_get_Cons)
qed

lemma respond_gml_total:
  assumes "outputFormat p \<noteq> ''GEOJSON''"
    and "\<forall>f \<in> set features. \<exists>m. featureXml excluded fmt (srsName p) f = Inr m"
  shows "\<exists>r. respond excluded fmt p features numberMatched = Inr r"
proof -
  from mapE_total[OF assms(2)] obtain members where
    "mapE (featureXml excluded fmt (srsName p)) features = Inr members" by blast
  with assms(1) show ?thesis by (simp add: respond_def gmlCollection_def)
qed


section \<open>The handler as a whole\<close>

lemma answers_sourceFor: "answers (sourceFor p matched) p matched"
  using fetchSql_neq_countSql[of p p]
  by (auto simp: answers_def sourceFor_def)


lemma wfsGetFeature_respond:
  assumes "refresh ds False = None" "snd (runQueries ds p) = Inr (features, numberMatched)"
  shows "snd (wfsGetFeature excluded fmt ds serverUrl (Some p)) =
           (case respond excluded fmt p (map (mapFeature fmt serverUrl) features) numberMatched of
              Inl e \<Rightarrow> Inl e | Inr r \<Rightarrow> Inr (Some r))"
    and "fst (wfsGetFeature excluded fmt ds serverUrl (Some p)) = Refresh False # fst (runQueries ds p)"
  using assms by (cases "runQueries ds p"; simp add: wfsGetFeature_def split: sum.splits)+

lemmas example_defs =
  exampleRow_def exampleMatched_def exampleParams_def exampleExcluded_def

lemmas eval_defs =
  keys_def obj_get_def path_def wf_obj_def spread_def mapFeature_def properties_def
  coordinates_def geojsonFeature_def geojsonCollection_def respond_def geojsonFeatures_def
  gmlMembers_def gmlElement_def gmlPoint_def featureElement_def featureXml_def
  gmlCollection_def intToString_def decimal.simps digit_char_def childElementNames_def
  isAttributeKey_def

lemma runQueries_answers:
  assumes "answers ds p matched"
  shows "snd (runQueries ds p) =
           Inr (case count p of None \<Rightarrow> matched | Some k \<Rightarrow> take k matched,
                JInt (int (length matched)))"
  using assms
  by (cases "count p") (simp_all add: answers_def runQueries_def Let_def obj_get_def)

lemma wf_bindAll: "wf_obj ob \<Longrightarrow> wf_obj (bindAll slot vs ob)"
  by (simp add: bindAll_spread wf_spread)

lemma wf_queryParams: "wf_obj (queryParams p)"
proof -
  have "wf_obj ([] :: 'a obj)" by (simp add: wf_obj_def keys_def)
  then show ?thesis
    by (simp add: queryParams_def Let_def wf_bindAll wf_obj_set split: option.splits)
qed

lemma featureXml_total:
  assumes "srs = Some ''EPSG:3857'' \<or> srs = Some ''EPSG:4326''
           \<or> ''geom'' \<notin> set (keys feature) \<or> ''geom'' \<in> excluded"
  shows "\<exists>m. featureXml excluded fmt srs feature = Inr m"
  using featureElement_total[OF assms, of fmt] by (auto simp: featureXml_Inr)


section \<open>The claims\<close>






text \<open>
  C3. In the GeoJSON branch the coordinates of every feature are
  \<open>[longitude, latitude]\<close> when \<open>srsName\<close> is EPSG:4326, and \<open>[x, y]\<close> when it is
  EPSG:3857 or unspecified.
\<close>

theorem geojson_coordinate_order:
  assumes "outputFormat p = ''GEOJSON''"
  shows "\<exists>r. respond excluded fmt p features numberMatched = Inr r
           \<and> length (geojsonFeatures r) = length features
           \<and> (\<forall>i<length features.
                (srsName p = Some ''EPSG:4326'' \<longrightarrow>
                   path (geojsonFeatures r ! i) [''geometry'', ''coordinates''] =
                     JArr [obj_get (features ! i) ''longitude'', obj_get (features ! i) ''latitude''])
              \<and> (srsName p = None \<or> srsName p = Some ''EPSG:3857'' \<longrightarrow>
                   path (geojsonFeatures r ! i) [''geometry'', ''coordinates''] =
                     JArr [obj_get (features ! i) ''x'', obj_get (features ! i) ''y'']))"
proof -
  from respond_geojson[OF assms] obtain r where
    r: "respond excluded fmt p features numberMatched = Inr r"
    and fs: "geojsonFeatures r = map (geojsonFeature fmt (srsName p)) features"
    by blast
  show ?thesis
    using r fs by (auto simp: geojsonFeature_parts coordinates_def)
qed

theorem geojson_coordinate_order_witness:
  "outputFormat (exampleParams\<lparr>outputFormat := ''GEOJSON''\<rparr>) = ''GEOJSON''
   \<and> srsName (exampleParams\<lparr>outputFormat := ''GEOJSON''\<rparr>) = Some ''EPSG:4326''
   \<and> (\<exists>r. respond exampleExcluded id (exampleParams\<lparr>outputFormat := ''GEOJSON''\<rparr>)
              [mapFeature id ''http://gis.example'' (exampleRow 7)] (JInt 12) = Inr r
          \<and> path (geojsonFeatures r ! 0) [''geometry'', ''coordinates'']
              = JArr [JNum ''153.02'', JNum ''-27.47''])
   \<and> srsName (exampleParams\<lparr>outputFormat := ''GEOJSON'', srsName := None\<rparr>) = None
   \<and> (\<exists>r. respond exampleExcluded id (exampleParams\<lparr>outputFormat := ''GEOJSON'', srsName := None\<rparr>)
              [mapFeature id ''http://gis.example'' (exampleRow 7)] (JInt 12) = Inr r
          \<and> path (geojsonFeatures r ! 0) [''geometry'', ''coordinates'']
              = JArr [JNum ''3.5'', JNum ''7.25''])"
  using geojson_coordinate_order[of "exampleParams\<lparr>outputFormat := ''GEOJSON''\<rparr>"
      exampleExcluded id "[mapFeature id ''http://gis.example'' (exampleRow 7)]" "JInt 12"]
    geojson_coordinate_order[of "exampleParams\<lparr>outputFormat := ''GEOJSON'', srsName := None\<rparr>"
      exampleExcluded id "[mapFeature id ''http://gis.example'' (exampleRow 7)]" "JInt 12"]
  by (simp add: example_defs eval_defs)

text \<open>
  C4. Whenever the total-count query is executed, the parameter mapping passed to it has
  no \<open>$count\<close> key and is otherwise the fetch query's mapping. The fetch query's
  mapping binds \<open>typeNames[i]\<close> to the slot \<open>$param<i>\<close>, each component of the
  bounding box (when present) to \<open>$bbox<i>\<close> (\<open>$bbox0\<close> to \<open>$bbox3\<close> for the four
  bounds), and the count (when present) to \<open>$count\<close>; all these slots are distinct,
  and the mapping has no other key.
\<close>

theorem parameter_isolation:
  fixes p :: "'r wfsParams"
  shows "(\<forall>r \<in> set (paramsPassed (countSql p) (fst (runQueries ds p))).
            ''$count'' \<notin> set (keys r)
          \<and> (\<forall>k. k \<noteq> ''$count'' \<longrightarrow> obj_get r k = obj_get (queryParams p) k))
       \<and> paramsPassed (fetchSql p) (fst (runQueries ds p)) = [queryParams p]
       \<and> (\<forall>i<length (typeNames p). obj_get (queryParams p) (paramSlot i) = JStr (typeNames p ! i))
       \<and> (\<forall>b. bbox p = Some b \<longrightarrow>
             (\<forall>i<length b. obj_get (queryParams p) (bboxSlot i) = b ! i))
       \<and> (\<forall>c. count p = Some c \<longrightarrow> obj_get (queryParams p) ''$count'' = JInt (int c))
       \<and> (count p = None \<longrightarrow> ''$count'' \<notin> set (keys (queryParams p)))
       \<and> (\<forall>i j. (paramSlot i = paramSlot j \<longrightarrow> i = j) \<and> (bboxSlot i = bboxSlot j \<longrightarrow> i = j)
                \<and> paramSlot i \<noteq> bboxSlot j \<and> paramSlot i \<noteq> ''$count'' \<and> bboxSlot j \<noteq> ''$count'')
       \<and> map bboxSlot [0, 1, 2, 3] = [''$bbox0'', ''$bbox1'', ''$bbox2'', ''$bbox3'']
       \<and> set (keys (queryParams p)) =
            paramSlot ` {0..<length (typeNames p)}
            \<union> (case bbox p of None \<Rightarrow> {} | Some b \<Rightarrow> bboxSlot ` {0..<length b})
            \<union> (case count p of None \<Rightarrow> {} | Some c \<Rightarrow> {''$count''})
       \<and> wf_obj (queryParams p)"
proof (intro conjI)
  show "\<forall>r \<in> set (paramsPassed (countSql p) (fst (runQueries ds p))).
            ''$count'' \<notin> set (keys r)
          \<and> (\<forall>k. k \<noteq> ''$count'' \<longrightarrow> obj_get r k = obj_get (queryParams p) k)"
    by (auto simp: paramsPassed_count count_not_in_remaining obj_get_remaining
        split: sum.splits option.splits)
  show "paramsPassed (fetchSql p) (fst (runQueries ds p)) = [queryParams p]"
    by (rule paramsPassed_fetch)
  show "\<forall>i<length (typeNames p). obj_get (queryParams p) (paramSlot i) = JStr (typeNames p ! i)"
    by (simp add: queryParams_typeName)
  show "\<forall>b. bbox p = Some b \<longrightarrow> (\<forall>i<length b. obj_get (queryParams p) (bboxSlot i) = b ! i)"
    by (simp add: queryParams_bbox)
  show "\<forall>c. count p = Some c \<longrightarrow> obj_get (queryParams p) ''$count'' = JInt (int c)"
    by (simp add: queryParams_count)
  show "count p = None \<longrightarrow> ''$count'' \<notin> set (keys (queryParams p))"
    using slots_disjoint(2,3)[symmetric]
    by (auto simp: keys_queryParams split: option.splits)
  show "\<forall>i j. (paramSlot i = paramSlot j \<longrightarrow> i = j) \<and> (bboxSlot i = bboxSlot j \<longrightarrow> i = j)
                \<and> paramSlot i \<noteq> bboxSlot j \<and> paramSlot i \<noteq> ''$count'' \<and> bboxSlot j \<noteq> ''$count''"
    by (simp add: paramSlot_inj bboxSlot_inj slots_disjoint)
  show "map bboxSlot [0, 1, 2, 3] = [''$bbox0'', ''$bbox1'', ''$bbox2'', ''$bbox3'']"
    by (simp add: bboxSlot_def decimal.simps digit_char_def)
  show "set (keys (queryParams p)) =
            paramSlot ` {0..<length (typeNames p)}
            \<union> (case bbox p of None \<Rightarrow> {} | Some b \<Rightarrow> bboxSlot ` {0..<length b})
            \<union> (case count p of None \<Rightarrow> {} | Some c \<Rightarrow> {''$count''})"
    by (rule keys_queryParams)
  show "wf_obj (queryParams p)" by (rule wf_queryParams)
qed

theorem parameter_isolation_witness:
  "queryParams exampleParams =
     [(''$param0'', JStr ''parks''), (''$bbox0'', JInt 0), (''$bbox1'', JInt 0),
      (''$bbox2'', JInt 10), (''$bbox3'', JInt 10), (''$count'', JInt 5)]
   \<and> paramsPassed (fetchSql exampleParams)
        (fst (runQueries (sourceFor exampleParams exampleMatched) exampleParams))
       = [queryParams exampleParams]
   \<and> paramsPassed (countSql exampleParams)
        (fst (runQueries (sourceFor exampleParams exampleMatched) exampleParams))
       = [[(''$param0'', JStr ''parks''), (''$bbox0'', JInt 0), (''$bbox1'', JInt 0),
           (''$bbox2'', JInt 10), (''$bbox3'', JInt 10)]]
   \<and> ''$count'' \<notin> set (keys (hd (paramsPassed (countSql exampleParams)
        (fst (runQueries (sourceFor exampleParams exampleMatched) exampleParams)))))"
proof -
  let ?ds = "sourceFor exampleParams exampleMatched"
  have q: "queryParams exampleParams =
     [(''$param0'', JStr ''parks''), (''$bbox0'', JInt 0), (''$bbox1'', JInt 0),
      (''$bbox2'', JInt 10), (''$bbox3'', JInt 10), (''$count'', JInt 5)]"
    by (simp add: queryParams_def exampleParams_def bindAll_def paramSlot_def bboxSlot_def
        decimal.simps digit_char_def enumerate_eq_zip upt_rec)
  have f: "queryFeaturePackage ?ds (fetchSql exampleParams) (queryParams exampleParams)
             = Inr (take 5 exampleMatched)"
    using answers_sourceFor[of exampleParams exampleMatched]
    by (simp add: answers_def exampleParams_def)
  have c: "paramsPassed (countSql exampleParams) (fst (runQueries ?ds exampleParams))
             = [remainingQueryParams (queryParams exampleParams)]"
    using f by (simp add: paramsPassed_count) (simp add: exampleParams_def)
  have r: "remainingQueryParams (queryParams exampleParams) =
      [(''$param0'', JStr ''parks''), (''$bbox0'', JInt 0), (''$bbox1'', JInt 0),
           (''$bbox2'', JInt 10), (''$bbox3'', JInt 10)]"
    by (simp add: q remainingQueryParams_def rest_without_def)
  show ?thesis
    using parameter_isolation[of exampleParams ?ds] c r q
    by (simp add: keys_def)
qed

text \<open>
  C5. In the GeoJSON branch, for every feature, every column except \<open>geom\<close> is copied
  into \<open>properties\<close> as a string, \<open>geom\<close> is never a key of \<open>properties\<close>, and the
  geometry is the structured object with type \<open>Point\<close> and the coordinates.
\<close>

theorem geom_never_stringified:
  assumes "outputFormat p = ''GEOJSON''"
  shows "\<exists>r. respond excluded fmt p features numberMatched = Inr r
           \<and> length (geojsonFeatures r) = length features
           \<and> (\<forall>i<length features.
                ''geom'' \<notin> set (keysOf (path (geojsonFeatures r ! i) [''properties'']))
              \<and> (\<forall>k \<in> set (keys (features ! i)). k \<noteq> ''geom'' \<longrightarrow>
                   path (geojsonFeatures r ! i) [''properties'', k] =
                     JStr (toString fmt (obj_get (features ! i) k)))
              \<and> path (geojsonFeatures r ! i) [''geometry'', ''type''] = JStr ''Point''
              \<and> path (geojsonFeatures r ! i) [''geometry'', ''coordinates''] =
                   JArr (coordinates (srsName p) (features ! i)))"
proof -
  from respond_geojson[OF assms] obtain r where
    r: "respond excluded fmt p features numberMatched = Inr r"
    and fs: "geojsonFeatures r = map (geojsonFeature fmt (srsName p)) features"
    by blast
  have props: "path (geojsonFeature fmt srs f) [''properties'', k] = obj_get (properties fmt f) k"
    for srs f k
    by (simp add: geojsonFeature_def path_Cons path_Nil obj_get_Cons)
  show ?thesis
    using r fs
    by (auto simp: geojsonFeature_parts props keys_properties obj_get_properties)
qed

theorem geom_never_stringified_witness:
  "outputFormat (exampleParams\<lparr>outputFormat := ''GEOJSON''\<rparr>) = ''GEOJSON''
   \<and> ''geom'' \<in> set (keys (mapFeature id ''http://gis.example'' (exampleRow 7)))
   \<and> (\<exists>r. respond exampleExcluded id (exampleParams\<lparr>outputFormat := ''GEOJSON''\<rparr>)
              [mapFeature id ''http://gis.example'' (exampleRow 7)] (JInt 12) = Inr r
          \<and> keysOf (path (geojsonFeatures r ! 0) [''properties''])
              = [''GmlID'', ''viewerUrl'', ''id'', ''featureset'', ''x'', ''y'', ''latitude'',
                 ''longitude'', ''name'']
          \<and> path (geojsonFeatures r ! 0) [''properties'', ''latitude''] = JStr ''-27.47''
          \<and> path (geojsonFeatures r ! 0) [''geometry'', ''type''] = JStr ''Point'')"
  using geom_never_stringified[of "exampleParams\<lparr>outputFormat := ''GEOJSON''\<rparr>"
      exampleExcluded id "[mapFeature id ''http://gis.example'' (exampleRow 7)]" "JInt 12"]
  by (simp add: example_defs eval_defs)




text \<open>
  C7. In the GML branch, for every feature of a response, no column name of the
  excluded set is a child element of the feature element: an excluded name is not a
  key of the element at all, except that the element always has its own \<open>@gml:id\<close>
  attribute.
\<close>

theorem gml_exclusion_fidelity:
  assumes "outputFormat p \<noteq> ''GEOJSON''"
    and "respond excluded fmt p features numberMatched = Inr r"
  shows "length (gmlMembers r) = length features
       \<and> (\<forall>i<length features. \<forall>k \<in> excluded.
             k \<notin> set (childElementNames (gmlElement fmt (features ! i) (gmlMembers r ! i)))
           \<and> (k \<noteq> ''@gml:id'' \<longrightarrow>
                k \<notin> set (keysOf (gmlElement fmt (features ! i) (gmlMembers r ! i)))))"
proof (intro conjI allI impI ballI)
  note R = respond_gml_Inr[OF assms]
  show "length (gmlMembers r) = length features" using R by simp
  fix i k assume i: "i < length features" and k: "k \<in> excluded"
  from R i have "featureXml excluded fmt (srsName p) (features ! i) = Inr (gmlMembers r ! i)"
    by simp
  from gmlElement_featureXml[OF this] obtain el where
    el: "featureElement excluded fmt (srsName p) (features ! i) = Inr el"
    and g: "gmlElement fmt (features ! i) (gmlMembers r ! i) = JObj el"
    by blast
  have ks: "set (keys el) = insert ''@gml:id'' (set (keys (features ! i)) - excluded)"
    by (rule featureElement_Inr(1)[OF el])
  show "k \<notin> set (childElementNames (gmlElement fmt (features ! i) (gmlMembers r ! i)))"
    using ks k by (auto simp: g childElementNames_def isAttributeKey_def)
  show "k \<notin> set (keysOf (gmlElement fmt (features ! i) (gmlMembers r ! i)))"
    if "k \<noteq> ''@gml:id''"
    using ks k that by (simp add: g)
qed

theorem gml_exclusion_fidelity_witness:
  "outputFormat exampleParams \<noteq> ''GEOJSON''
   \<and> ''id'' \<in> exampleExcluded \<and> ''featureset'' \<in> exampleExcluded
   \<and> ''id'' \<in> set (keys (mapFeature id ''http://gis.example'' (exampleRow 7)))
   \<and> (\<exists>r. respond exampleExcluded id exampleParams
             [mapFeature id ''http://gis.example'' (exampleRow 7)] (JInt 12) = Inr r
          \<and> childElementNames (gmlElement id (mapFeature id ''http://gis.example'' (exampleRow 7))
               (gmlMembers r ! 0))
             = [''viewerUrl'', ''x'', ''y'', ''latitude'', ''longitude'', ''geom'', ''name''])"
  using gml_exclusion_fidelity[of exampleParams exampleExcluded id
      "[mapFeature id ''http://gis.example'' (exampleRow 7)]" "JInt 12"
      "projr (respond exampleExcluded id exampleParams
         [mapFeature id ''http://gis.example'' (exampleRow 7)] (JInt 12))"]
  by (simp add: example_defs eval_defs)

text \<open>
  C8. The decorator \<open>mapFeature\<close> is a function of the server URL and the row (the
  model has no state for it to change): on a well-formed row it returns a well-formed
  record that has every original key with its original value, so original fields win a
  collision, and whose only other key is \<open>viewerUrl\<close>, bound to
  \<open><serverUrl>/viewer#camera=<latitude>,<longitude>,18.00z\<close> unless the row has that
  key itself.
\<close>

theorem mapFeature_contract:
  assumes "wf_obj feature"
  shows "(\<forall>k \<in> set (keys feature).
            obj_get (mapFeature fmt serverUrl feature) k = obj_get feature k)
       \<and> (''viewerUrl'' \<notin> set (keys feature) \<longrightarrow>
            obj_get (mapFeature fmt serverUrl feature) ''viewerUrl'' =
              JStr (serverUrl @ ''/viewer#camera='' @ toString fmt (obj_get feature ''latitude'')
                    @ '','' @ toString fmt (obj_get feature ''longitude'') @ '',18.00z''))
       \<and> set (keys (mapFeature fmt serverUrl feature)) = insert ''viewerUrl'' (set (keys feature))
       \<and> wf_obj (mapFeature fmt serverUrl feature)"
  using assms
  by (simp add: obj_get_mapFeature obj_get_mapFeature_viewerUrl keys_mapFeature wf_mapFeature)

theorem mapFeature_contract_witness:
  "wf_obj (exampleRow 7)
   \<and> ''viewerUrl'' \<notin> set (keys (exampleRow 7))
   \<and> obj_get (mapFeature id ''http://gis.example'' (exampleRow 7)) ''viewerUrl''
       = JStr ''http://gis.example/viewer#camera=-27.47,153.02,18.00z''
   \<and> obj_get (mapFeature id ''http://gis.example'' (exampleRow 7)) ''id'' = JInt 7
   \<and> obj_get (mapFeature id ''http://gis.example'' (exampleRow 7)) ''name'' = JStr ''Roma Street''"
proof -
  have w: "wf_obj (exampleRow 7)" by (simp add: exampleRow_def wf_obj_def keys_def)
  show ?thesis
    using mapFeature_contract[OF w, of id "''http://gis.example''"] w
    by (simp add: exampleRow_def keys_def obj_get_def)
qed

text \<open>
  C9. The GeoJSON branch never raises the unsupported-SRS error: for every value of
  \<open>srsName\<close> it sends a 200 response of type \<open>application/json\<close>, with coordinates
  \<open>[x, y]\<close> whenever \<open>srsName\<close> is not exactly EPSG:4326. So does the whole handler once
  the refresh and the queries have succeeded. The check is on the GML path only.
\<close>

theorem geojson_never_unsupported:
  assumes "outputFormat p = ''GEOJSON''"
  shows "(\<exists>r. respond excluded fmt p features numberMatched = Inr r
            \<and> status r = 200 \<and> contentType r = ''application/json''
            \<and> length (geojsonFeatures r) = length features
            \<and> (srsName p \<noteq> Some ''EPSG:4326'' \<longrightarrow>
                 (\<forall>i<length features.
                    path (geojsonFeatures r ! i) [''geometry'', ''coordinates''] =
                      JArr [obj_get (features ! i) ''x'', obj_get (features ! i) ''y''])))
       \<and> (refresh ds False = None \<longrightarrow> snd (runQueries ds p) = Inr (rows, numberMatched) \<longrightarrow>
            (\<exists>r. snd (wfsGetFeature excluded fmt ds serverUrl (Some p)) = Inr (Some r)
               \<and> status r = 200 \<and> contentType r = ''application/json''))"
proof (intro conjI impI)
  from respond_geojson[OF assms] obtain r where
    r: "respond excluded fmt p features numberMatched = Inr r"
       "status r = 200" "contentType r = ''application/json''"
    and fs: "geojsonFeatures r = map (geojsonFeature fmt (srsName p)) features"
    by blast
  then show "\<exists>r. respond excluded fmt p features numberMatched = Inr r
            \<and> status r = 200 \<and> contentType r = ''application/json''
            \<and> length (geojsonFeatures r) = length features
            \<and> (srsName p \<noteq> Some ''EPSG:4326'' \<longrightarrow>
                 (\<forall>i<length features.
                    path (geojsonFeatures r ! i) [''geometry'', ''coordinates''] =
                      JArr [obj_get (features ! i) ''x'', obj_get (features ! i) ''y'']))"
    by (auto simp: geojsonFeature_parts coordinates_def)
next
  assume ok: "refresh ds False = None" "snd (runQueries ds p) = Inr (rows, numberMatched)"
  from respond_geojson[OF assms, of excluded fmt "map (mapFeature fmt serverUrl) rows" numberMatched]
  obtain r where
    "respond excluded fmt p (map (mapFeature fmt serverUrl) rows) numberMatched = Inr r"
    "status r = 200" "contentType r = ''application/json''"
    by blast
  then show "\<exists>r. snd (wfsGetFeature excluded fmt ds serverUrl (Some p)) = Inr (Some r)
               \<and> status r = 200 \<and> contentType r = ''application/json''"
    by (simp add: wfsGetFeature_respond(1)[OF ok])
qed

theorem geojson_never_unsupported_witness:
  "outputFormat (exampleParams\<lparr>outputFormat := ''GEOJSON'', srsName := Some ''EPSG:9999''\<rparr>)
     = ''GEOJSON''
   \<and> srsName (exampleParams\<lparr>outputFormat := ''GEOJSON'', srsName := Some ''EPSG:9999''\<rparr>)
     \<noteq> Some ''EPSG:4326''
   \<and> (\<exists>r. respond exampleExcluded id
              (exampleParams\<lparr>outputFormat := ''GEOJSON'', srsName := Some ''EPSG:9999''\<rparr>)
              [mapFeature id ''http://gis.example'' (exampleRow 7)] (JInt 12) = Inr r
          \<and> status r = 200 \<and> contentType r = ''application/json''
          \<and> path (geojsonFeatures r ! 0) [''geometry'', ''coordinates'']
              = JArr [JNum ''3.5'', JNum ''7.25''])
   \<and> (\<exists>r. snd (wfsGetFeature exampleExcluded id
                 (sourceFor (exampleParams\<lparr>outputFormat := ''GEOJSON'', srsName := Some ''EPSG:9999''\<rparr>)
                    exampleMatched)
                 ''http://gis.example''
                 (Some (exampleParams\<lparr>outputFormat := ''GEOJSON'', srsName := Some ''EPSG:9999''\<rparr>)))
             = Inr (Some r)
          \<and> status r = 200 \<and> contentType r = ''application/json'')"
proof -
  let ?p = "exampleParams\<lparr>outputFormat := ''GEOJSON'', srsName := Some ''EPSG:9999''\<rparr>"
  let ?ds = "sourceFor ?p exampleMatched"
  have o: "outputFormat ?p = ''GEOJSON''" by simp
  have s: "srsName ?p \<noteq> Some ''EPSG:4326''" by simp
  have rf: "refresh ?ds False = None" by (simp add: sourceFor_def)
  have l: "int (length exampleMatched) = 12" by (simp add: exampleMatched_def)
  have q: "snd (runQueries ?ds ?p) = Inr (take 5 exampleMatched, JInt 12)"
    using runQueries_answers[OF answers_sourceFor, of ?p exampleMatched] l
    by (simp add: exampleParams_def)
  from geojson_never_unsupported[OF o, where excluded = exampleExcluded and fmt = id
      and features = "[mapFeature id ''http://gis.example'' (exampleRow 7)]"
      and numberMatched = "JInt 12" and ds = ?ds
      and rows = "take 5 exampleMatched" and serverUrl = "''http://gis.example''"]
    rf q s
  have "(\<exists>r. respond exampleExcluded id ?p
              [mapFeature id ''http://gis.example'' (exampleRow 7)] (JInt 12) = Inr r
          \<and> status r = 200 \<and> contentType r = ''application/json''
          \<and> path (geojsonFeatures r ! 0) [''geometry'', ''coordinates'']
              = JArr [obj_get (mapFeature id ''http://gis.example'' (exampleRow 7)) ''x'',
                      obj_get (mapFeature id ''http://gis.example'' (exampleRow 7)) ''y''])
   \<and> (\<exists>r. snd (wfsGetFeature exampleExcluded id ?ds ''http://gis.example'' (Some ?p))
             = Inr (Some r)
          \<and> status r = 200 \<and> contentType r = ''application/json'')"
    by auto
  moreover have "obj_get (mapFeature id ''http://gis.example'' (exampleRow 7)) ''x'' = JNum ''3.5''"
    "obj_get (mapFeature id ''http://gis.example'' (exampleRow 7)) ''y'' = JNum ''7.25''"
    by (simp_all add: exampleRow_def eval_defs)
  ultimately show ?thesis using o s by simp
qed

text \<open>
  C10. The excluded-columns set has no effect in the GeoJSON branch: the response is the
  same for every set, and every key of the decorated feature except \<open>geom\<close> (\<open>id\<close>,
  \<open>featureset\<close>, any excluded column, and the derived \<open>viewerUrl\<close>) is a string-valued
  entry of \<open>properties\<close>. The identity property \<open>GmlID\<close> is \<open>Point.<id>\<close> only when the
  row has no column of that name: a column named \<open>GmlID\<close> is copied over it.
\<close>

theorem geojson_ignores_exclusions:
  assumes "outputFormat p = ''GEOJSON''" and "\<forall>row \<in> set rows. wf_obj row"
  shows "respond excluded fmt p (map (mapFeature fmt serverUrl) rows) numberMatched
           = respond {} fmt p (map (mapFeature fmt serverUrl) rows) numberMatched
       \<and> (\<exists>r. respond excluded fmt p (map (mapFeature fmt serverUrl) rows) numberMatched = Inr r
            \<and> length (geojsonFeatures r) = length rows
            \<and> (\<forall>i<length rows.
                 (\<forall>k \<in> set (keys (rows ! i)). k \<noteq> ''geom'' \<longrightarrow>
                    path (geojsonFeatures r ! i) [''properties'', k] =
                      JStr (toString fmt (obj_get (rows ! i) k)))
               \<and> (''viewerUrl'' \<notin> set (keys (rows ! i)) \<longrightarrow>
                    path (geojsonFeatures r ! i) [''properties'', ''viewerUrl''] =
                      JStr (serverUrl @ ''/viewer#camera=''
                            @ toString fmt (obj_get (rows ! i) ''latitude'') @ '',''
                            @ toString fmt (obj_get (rows ! i) ''longitude'') @ '',18.00z''))
               \<and> (''GmlID'' \<in> set (keys (rows ! i)) \<longrightarrow>
                    path (geojsonFeatures r ! i) [''properties'', ''GmlID''] =
                      JStr (toString fmt (obj_get (rows ! i) ''GmlID'')))
               \<and> (''GmlID'' \<notin> set (keys (rows ! i)) \<longrightarrow>
                    path (geojsonFeatures r ! i) [''properties'', ''GmlID''] =
                      JStr (''Point.'' @ toString fmt (obj_get (rows ! i) ''id'')))))"
proof (intro conjI)
  show "respond excluded fmt p (map (mapFeature fmt serverUrl) rows) numberMatched
           = respond {} fmt p (map (mapFeature fmt serverUrl) rows) numberMatched"
    using assms(1) by (simp add: respond_def)
next
  from respond_geojson[OF assms(1)] obtain r where
    r: "respond excluded fmt p (map (mapFeature fmt serverUrl) rows) numberMatched = Inr r"
    and fs: "geojsonFeatures r
               = map (geojsonFeature fmt (srsName p)) (map (mapFeature fmt serverUrl) rows)"
    by blast
  have props: "path (geojsonFeature fmt srs f) [''properties'', k] = obj_get (properties fmt f) k"
    for srs f k
    by (simp add: geojsonFeature_def path_Cons path_Nil obj_get_Cons)
  have each: "(\<forall>k \<in> set (keys row). k \<noteq> ''geom'' \<longrightarrow>
                 obj_get (properties fmt (mapFeature fmt serverUrl row)) k =
                   JStr (toString fmt (obj_get row k)))
            \<and> (''viewerUrl'' \<notin> set (keys row) \<longrightarrow>
                 obj_get (properties fmt (mapFeature fmt serverUrl row)) ''viewerUrl'' =
                   JStr (serverUrl @ ''/viewer#camera=''
                         @ toString fmt (obj_get row ''latitude'') @ '',''
                         @ toString fmt (obj_get row ''longitude'') @ '',18.00z''))
            \<and> (''GmlID'' \<in> set (keys row) \<longrightarrow>
                 obj_get (properties fmt (mapFeature fmt serverUrl row)) ''GmlID'' =
                   JStr (toString fmt (obj_get row ''GmlID'')))
            \<and> (''GmlID'' \<notin> set (keys row) \<longrightarrow>
                 obj_get (properties fmt (mapFeature fmt serverUrl row)) ''GmlID'' =
                   JStr (''Point.'' @ toString fmt (obj_get row ''id'')))"
    if w: "wf_obj row" for row
  proof (intro conjI ballI impI)
    fix k assume "k \<in> set (keys row)" "k \<noteq> ''geom''"
    then show "obj_get (properties fmt (mapFeature fmt serverUrl row)) k =
                   JStr (toString fmt (obj_get row k))"
      by (simp add: obj_get_properties keys_mapFeature obj_get_mapFeature[OF w])
  next
    assume "''viewerUrl'' \<notin> set (keys row)"
    then show "obj_get (properties fmt (mapFeature fmt serverUrl row)) ''viewerUrl'' =
                   JStr (serverUrl @ ''/viewer#camera=''
                         @ toString fmt (obj_get row ''latitude'') @ '',''
                         @ toString fmt (obj_get row ''longitude'') @ '',18.00z'')"
      by (simp add: obj_get_properties keys_mapFeature obj_get_mapFeature_viewerUrl)
  next
    assume "''GmlID'' \<in> set (keys row)"
    then show "obj_get (properties fmt (mapFeature fmt serverUrl row)) ''GmlID'' =
                   JStr (toString fmt (obj_get row ''GmlID''))"
      by (simp add: obj_get_properties keys_mapFeature obj_get_mapFeature[OF w])
  next
    assume "''GmlID'' \<notin> set (keys row)"
    then show "obj_get (properties fmt (mapFeature fmt serverUrl row)) ''GmlID'' =
                   JStr (''Point.'' @ toString fmt (obj_get row ''id''))"
      by (simp add: obj_get_properties keys_mapFeature obj_get_mapFeature[OF w])
  qed
  have "\<forall>i<length rows. wf_obj (rows ! i)" using assms(2) by simp
  with each have "\<forall>i<length rows.
       (\<forall>k \<in> set (keys (rows ! i)). k \<noteq> ''geom'' \<longrightarrow>
                 obj_get (properties fmt (mapFeature fmt serverUrl (rows ! i))) k =
                   JStr (toString fmt (obj_get (rows ! i) k)))
            \<and> (''viewerUrl'' \<notin> set (keys (rows ! i)) \<longrightarrow>
                 obj_get (properties fmt (mapFeature fmt serverUrl (rows ! i))) ''viewerUrl'' =
                   JStr (serverUrl @ ''/viewer#camera=''
                         @ toString fmt (obj_get (rows ! i) ''latitude'') @ '',''
                         @ toString fmt (obj_get (rows ! i) ''longitude'') @ '',18.00z''))
            \<and> (''GmlID'' \<in> set (keys (rows ! i)) \<longrightarrow>
                 obj_get (properties fmt (mapFeature fmt serverUrl (rows ! i))) ''GmlID'' =
                   JStr (toString fmt (obj_get (rows ! i) ''GmlID'')))
            \<and> (''GmlID'' \<notin> set (keys (rows ! i)) \<longrightarrow>
                 obj_get (properties fmt (mapFeature fmt serverUrl (rows ! i))) ''GmlID'' =
                   JStr (''Point.'' @ toString fmt (obj_get (rows ! i) ''id'')))"
    by blast
  then show "\<exists>r. respond excluded fmt p (map (mapFeature fmt serverUrl) rows) numberMatched = Inr r
            \<and> length (geojsonFeatures r) = length rows
            \<and> (\<forall>i<length rows.
                 (\<forall>k \<in> set (keys (rows ! i)). k \<noteq> ''geom'' \<longrightarrow>
                    path (geojsonFeatures r ! i) [''properties'', k] =
                      JStr (toString fmt (obj_get (rows ! i) k)))
               \<and> (''viewerUrl'' \<notin> set (keys (rows ! i)) \<longrightarrow>
                    path (geojsonFeatures r ! i) [''properties'', ''viewerUrl''] =
                      JStr (serverUrl @ ''/viewer#camera=''
                            @ toString fmt (obj_get (rows ! i) ''latitude'') @ '',''
                            @ toString fmt (obj_get (rows ! i) ''longitude'') @ '',18.00z''))
               \<and> (''GmlID'' \<in> set (keys (rows ! i)) \<longrightarrow>
                    path (geojsonFeatures r ! i) [''properties'', ''GmlID''] =
                      JStr (toString fmt (obj_get (rows ! i) ''GmlID'')))
               \<and> (''GmlID'' \<notin> set (keys (rows ! i)) \<longrightarrow>
                    path (geojsonFeatures r ! i) [''properties'', ''GmlID''] =
                      JStr (''Point.'' @ toString fmt (obj_get (rows ! i) ''id''))))"
    using r fs by (simp add: props)
qed

theorem geojson_ignores_exclusions_witness:
  "outputFormat (exampleParams\<lparr>outputFormat := ''GEOJSON''\<rparr>) = ''GEOJSON''
   \<and> wf_obj (exampleRow 7 @ [(''GmlID'', JStr ''A-1'')])
   \<and> ''id'' \<in> exampleExcluded
   \<and> (\<exists>r. respond exampleExcluded id (exampleParams\<lparr>outputFormat := ''GEOJSON''\<rparr>)
             (map (mapFeature id ''http://gis.example'') [exampleRow 7 @ [(''GmlID'', JStr ''A-1'')]])
             (JInt 12) = Inr r
          \<and> path (geojsonFeatures r ! 0) [''properties'', ''id''] = JStr ''7''
          \<and> path (geojsonFeatures r ! 0) [''properties'', ''featureset''] = JStr ''parks''
          \<and> path (geojsonFeatures r ! 0) [''properties'', ''viewerUrl'']
               = JStr ''http://gis.example/viewer#camera=-27.47,153.02,18.00z''
          \<and> path (geojsonFeatures r ! 0) [''properties'', ''GmlID''] = JStr ''A-1'')"
proof -
  let ?p = "exampleParams\<lparr>outputFormat := ''GEOJSON''\<rparr>"
  let ?row = "exampleRow 7 @ [(''GmlID'', JStr ''A-1'')]"
  have o: "outputFormat ?p = ''GEOJSON''" by simp
  have w: "\<forall>row \<in> set [?row]. wf_obj row" by (simp add: exampleRow_def wf_obj_def keys_def)
  show ?thesis
    using geojson_ignores_exclusions[OF o w, of exampleExcluded id "''http://gis.example''" "JInt 12"]
    by (simp add: example_defs eval_defs)
qed

section \<open>The example of the specification, through the handler\<close>

lemma example_scenario:
  "\<exists>r. wfsGetFeature exampleExcluded id (sourceFor exampleParams exampleMatched)
          ''http://gis.example'' (Some exampleParams)
        = ([Refresh False,
            Query (fetchSql exampleParams) (queryParams exampleParams),
            Query (countSql exampleParams) (remainingQueryParams (queryParams exampleParams))],
           Inr (Some r))
      \<and> status r = 200 \<and> contentType r = ''text/xml''
      \<and> path (body r) [''wfs:FeatureCollection'', ''@numberReturned''] = JInt 5
      \<and> path (body r) [''wfs:FeatureCollection'', ''@numberMatched''] = JInt 12
      \<and> length (gmlMembers r) = 5
      \<and> (\<forall>i<5. path (gmlMembers r ! i) [''wfs:member'', ''parks'', ''geom'', ''gml:Point'', ''gml:pos'']
                    = JStr ''-27.47 153.02''
                \<and> path (gmlMembers r ! i)
                     [''wfs:member'', ''parks'', ''geom'', ''gml:Point'', ''@srsName'']
                    = JStr ''urn:ogc:def:crs:EPSG::4326'')"
proof -
  let ?ds = "sourceFor exampleParams exampleMatched"
  let ?fs = "map (mapFeature id ''http://gis.example'') (take 5 exampleMatched)"
  have rf: "refresh ?ds False = None" by (simp add: sourceFor_def)
  have l: "int (length exampleMatched) = 12" by (simp add: exampleMatched_def)
  have q: "snd (runQueries ?ds exampleParams) = Inr (take 5 exampleMatched, JInt 12)"
    using runQueries_answers[OF answers_sourceFor, of exampleParams exampleMatched] l
    by (simp add: exampleParams_def)
  have f: "queryFeaturePackage ?ds (fetchSql exampleParams) (queryParams exampleParams)
             = Inr (take 5 exampleMatched)"
    using answers_sourceFor[of exampleParams exampleMatched]
    by (simp add: answers_def exampleParams_def)
  have calls: "fst (runQueries ?ds exampleParams) =
      [Query (fetchSql exampleParams) (queryParams exampleParams),
       Query (countSql exampleParams) (remainingQueryParams (queryParams exampleParams))]"
    using f by (simp add: runQueries_calls) (simp add: exampleParams_def)
  have o: "outputFormat exampleParams \<noteq> ''GEOJSON''" by (simp add: exampleParams_def)
  have srs: "srsName exampleParams = Some ''EPSG:4326''" by (simp add: exampleParams_def)
  have len: "length ?fs = 5" by (simp add: exampleMatched_def)
  from gmlColumns_total featureXml_total[of "srsName exampleParams"]
  have "\<forall>f \<in> set ?fs. \<exists>m. featureXml exampleExcluded id (srsName exampleParams) f = Inr m"
    using srs by blast
  from respond_gml_total[OF o this] obtain r where
    r: "respond exampleExcluded id exampleParams ?fs (JInt 12) = Inr r" by blast
  note R = respond_gml_Inr[OF o r]
  have each: "path (gmlMembers r ! i) [''wfs:member'', ''parks'', ''geom'', ''gml:Point'', ''gml:pos'']
                    = JStr ''-27.47 153.02''
                \<and> path (gmlMembers r ! i)
                     [''wfs:member'', ''parks'', ''geom'', ''gml:Point'', ''@srsName'']
                    = JStr ''urn:ogc:def:crs:EPSG::4326''"
    if i: "i < 5" for i
  proof -
    have fi: "?fs ! i = mapFeature id ''http://gis.example'' (exampleRow (Suc i))"
      using i by (simp add: exampleMatched_def)
    from R i len have "featureXml exampleExcluded id (srsName exampleParams) (?fs ! i)
                         = Inr (gmlMembers r ! i)" by simp
    then have "gmlMembers r ! i
                 = projr (featureXml exampleExcluded id (Some ''EPSG:4326'')
                            (mapFeature id ''http://gis.example'' (exampleRow (Suc i))))"
      unfolding fi srs by simp
    then show ?thesis
      by (simp add: exampleRow_def exampleExcluded_def eval_defs del: of_nat_Suc)
  qed
  have "wfsGetFeature exampleExcluded id ?ds ''http://gis.example'' (Some exampleParams)
          = (Refresh False # fst (runQueries ?ds exampleParams), Inr (Some r))"
    using wfsGetFeature_respond[OF rf q, of exampleExcluded id "''http://gis.example''"] r
    by (simp add: prod_eq_iff)
  with calls R each len show ?thesis by auto
qed

section \<open>What the revision without \<open>srsName\<close> does\<close>

lemma fetchSql_prev_neq_countSql_prev: "fetchSql_prev p \<noteq> countSql_prev p'"
  by (simp add: fetchSql_prev_def countSql_prev_def nl_def)

text \<open>
  The total-count query runs when a count or a bounding box is given, and it gets the
  whole mapping: with a count, \<open>$count\<close> is bound in it although its text has no such
  parameter. The other revision removes the key for this reason.
\<close>

lemma runQueries_prev_count_query:
  assumes "queryFeaturePackage ds (fetchSql_prev p) (queryParams_prev p) = Inr fs"
  shows "paramsPassed (countSql_prev p) (fst (runQueries_prev ds p)) =
           (if truthy (count p) \<or> bbox p \<noteq> None then [queryParams_prev p] else [])"
  using assms fetchSql_prev_neq_countSql_prev[of p p]
  by (simp add: runQueries_prev_def Let_def paramsPassed_def split: sum.splits list.splits)

lemma queryParams_prev_count:
  "count p = Some c \<Longrightarrow> c \<noteq> 0 \<Longrightarrow> obj_get (queryParams_prev p) ''$count'' = JInt (int c)"
  by (simp add: queryParams_prev_def Let_def obj_get_obj_set)

lemma queryParams_prev_eq:
  "count p \<noteq> Some 0 \<Longrightarrow> queryParams_prev p = queryParams p"
  by (simp add: queryParams_prev_def queryParams_def Let_def split: option.splits)

text \<open>GeoJSON: \<open>geom\<close> is copied like any other column, and the coordinates are \<open>[x, y]\<close>.\<close>

lemma obj_get_properties_prev:
  "obj_get (properties_prev fmt feature) k =
     (if k \<in> set (keys feature) then JStr (toString fmt (obj_get feature k))
      else if k = ''GmlID'' then JStr (''Point.'' @ toString fmt (obj_get feature ''id''))
      else JUndefined)"
proof -
  have "obj_get (foldl (\<lambda>props key. obj_set props key (JStr (toString fmt (obj_get feature key))))
                   acc ks) k
        = (if k \<in> set ks then JStr (toString fmt (obj_get feature k)) else obj_get acc k)"
    for acc :: "'a obj" and ks
    by (induction ks arbitrary: acc) (auto simp: obj_get_obj_set)
  then show ?thesis by (simp add: properties_prev_def obj_get_Cons obj_get_Nil)
qed

lemma geojsonFeature_prev_parts:
  "path (geojsonFeature_prev fmt feature) [''geometry'', ''coordinates'']
     = JArr [obj_get feature ''x'', obj_get feature ''y'']"
  "path (geojsonFeature_prev fmt feature) [''properties'', k] = obj_get (properties_prev fmt feature) k"
  by (simp_all add: geojsonFeature_prev_def path_Cons path_Nil obj_get_Cons)

text \<open>
  GML: the same columns are excluded and the identity is the same; the point is always
  encoded in EPSG:3857 and nothing is thrown.
\<close>

lemma gmlColumns_prev_eq:
  "gmlColumns excluded fmt (Some ''EPSG:3857'') feature ks el
     = Inr (gmlColumns_prev excluded fmt feature ks el)"
  by (induction ks arbitrary: el) (simp_all add: gmlPoint_def)

lemma featureXml_prev_eq:
  "featureXml excluded fmt (Some ''EPSG:3857'') feature = Inr (featureXml_prev excluded fmt feature)"
  by (simp add: featureXml_def featureXml_prev_def featureElement_def featureElement_prev_def
      gmlColumns_prev_eq del: obj_set.simps)

end
